theory Spec2Isabelle
  imports Complex_Main
begin

section \<open>CafeVibe: orders, mini-games and the economy\<close>

text \<open>
  A shallow embedding of the game logic of the main script: the global objects
  \<^verbatim>\<open>gameState\<close>, \<^verbatim>\<open>physicsState\<close> and \<^verbatim>\<open>miniGameState\<close>, the customers and held
  items (scene objects with a \<^verbatim>\<open>userData\<close> record), and the functions that mutate them.

  Conventions of the embedding.
  \<^item> A JavaScript number is a \<^typ>\<open>real\<close>: arithmetic is exact, where the script computes
    in IEEE doubles. Counters and indices are \<^typ>\<open>nat\<close>, \<^verbatim>\<open>Date.now()\<close> is an \<^typ>\<open>int\<close>.
  \<^item> A scene object has an identity. Objects live in a store \<open>heap\<close> from references to
    objects; \<^verbatim>\<open>===\<close> on objects is equality of references.
  \<^item> \<^verbatim>\<open>Math.random()\<close> and \<^verbatim>\<open>Date.now()\<close> are inputs of the functions that call them.
  \<^item> The DOM, the sounds, the notifications and the meshes are not part of the state.
    The notification a function shows is its returned outcome where a property needs it.
  \<^item> \<^verbatim>\<open>MENU_ITEMS\<close>, \<^verbatim>\<open>DRINK_RECIPES\<close>, \<^verbatim>\<open>UPGRADES\<close>, \<^verbatim>\<open>CUSTOMER_TYPES\<close>,
    \<^verbatim>\<open>QUEUE_POSITIONS\<close> and \<^verbatim>\<open>CONFIG\<close> are defined outside the scripts embedded here;
    they are parameters (the record \<open>registry\<close>).
\<close>

subsection \<open>Data\<close>

type_synonym ref = nat

text \<open>An entry of \<^verbatim>\<open>MENU_ITEMS\<close>; \<open>itype\<close> is the field \<^verbatim>\<open>type\<close>, \<open>item_id\<close> the field \<^verbatim>\<open>id\<close>.\<close>

record item =
  item_id :: string
  name :: string
  icon :: string
  itype :: string
  basePrice :: real

text \<open>The field \<^verbatim>\<open>userData.state\<close> of a customer: \<^verbatim>\<open>'entering'\<close>, \<^verbatim>\<open>'waiting'\<close>, \<^verbatim>\<open>'leaving'\<close>.\<close>

datatype custState = Entering | Waiting | Leaving

text \<open>
  \<^verbatim>\<open>userData\<close> is written in four shapes: by \<^verbatim>\<open>spawnCustomer\<close> (type \<^verbatim>\<open>'customer'\<close>), by
  \<^verbatim>\<open>grabCup\<close> (itemType \<^verbatim>\<open>'cup'\<close>), by \<^verbatim>\<open>grabPastry\<close> (itemType \<^verbatim>\<open>'pastry'\<close>), and it is the
  empty object on every other node. The contents of a cup are an object indexed by
  ingredient names: a map from strings to booleans.
\<close>

datatype userData =
    CustomerData (customerType: string) (cstate: custState) (corder: "item list")
  | CupData (contents: "string \<rightharpoonup> bool") (cquality: real)
  | PastryData (pquality: real)
  | NoData

text \<open>
  A scene object. \<open>posx\<close>, \<open>posz\<close> are \<^verbatim>\<open>position.x\<close>, \<^verbatim>\<open>position.z\<close>; \<open>targetPos\<close> is the
  variable of that name captured by the \<^verbatim>\<open>animate\<close> closure of \<^verbatim>\<open>animateCustomerEnter\<close>.
\<close>

record object3d =
  uuid :: nat
  userData :: userData
  posx :: real
  posz :: real
  targetPos :: "real \<times> real"

text \<open>An element of \<^verbatim>\<open>gameState.activeOrders\<close>, built by \<^verbatim>\<open>addOrder\<close>.\<close>

record cafeOrder =
  customer :: ref
  items :: "item list"
  startTime :: int

text \<open>
  \<^verbatim>\<open>gameState\<close>. \<open>ownedUpgrades\<close> is absent from the object literal, hence undefined
  (\<open>None\<close>) until the first purchase.
\<close>

record gameState =
  mode :: "string option"
  isPaused :: bool
  isPlaying :: bool
  money :: real
  rating :: real
  customersServed :: nat
  activeOrders :: "cafeOrder list"
  customers :: "ref list"
  menuPrices :: "string \<rightharpoonup> real"
  ownedUpgrades :: "string list option"

datatype miniGameType = Timing | Tap

text \<open>
  \<^verbatim>\<open>miniGameState\<close>; \<open>mtype\<close> is its field \<^verbatim>\<open>type\<close> and \<open>mgStartTime\<close> its field
  \<^verbatim>\<open>startTime\<close>, undefined until the first game. The callback is always one of the
  closures built by \<^verbatim>\<open>tryInteract\<close>, \<^verbatim>\<open>() => addToCup(heldItem, contentType)\<close>: the pair
  of the captured object and the ingredient.
\<close>

record miniGameState =
  active :: bool
  mtype :: "miniGameType option"
  markerPos :: real
  markerDirection :: real
  targetStart :: real
  targetEnd :: real
  tapProgress :: real
  tapRequired :: real
  quality :: real
  callback :: "(ref \<times> string) option"
  mgStartTime :: "int option"

text \<open>
  The whole mutable state. \<^verbatim>\<open>physicsState.isGrabbing\<close> is written together with
  \<^verbatim>\<open>physicsState.grabbedObject\<close> everywhere and is true exactly when the latter is not
  null; the model keeps \<open>grabbedObject\<close> only. \<open>nextRef\<close> is the next unused reference.
\<close>

record world =
  gs :: gameState
  grabbedObject :: "ref option"
  mg :: miniGameState
  heap :: "ref \<Rightarrow> object3d"
  nextRef :: ref

text \<open>
  The constants defined outside the embedded scripts. \<open>CUSTOMER_TYPES\<close> is the list
  \<^verbatim>\<open>Object.keys(CUSTOMER_TYPES)\<close>; a recipe is the list \<^verbatim>\<open>Object.entries(recipe)\<close> of
  pairs of an ingredient and whether it is required.
\<close>

record registry =
  MENU_ITEMS :: "item list"
  DRINK_RECIPES :: "string \<rightharpoonup> (string \<times> bool) list"
  CUSTOMER_TYPES :: "string list"
  QUEUE_POSITIONS :: "(real \<times> real) list"
  MAX_CUSTOMERS :: nat
  STARTING_MONEY :: real

text \<open>
  An entry of \<^verbatim>\<open>UPGRADES\<close>, with its fields \<^verbatim>\<open>id\<close>, \<^verbatim>\<open>name\<close>, \<^verbatim>\<open>price\<close> and the optional
  \<^verbatim>\<open>effect\<close>, arbitrary code run on purchase.
\<close>

record upgrade =
  upgrade_id :: string
  upgrade_name :: string
  price :: real
  effect :: "(world \<Rightarrow> world) option"

subsection \<open>The shop\<close>

text \<open>\<^verbatim>\<open>buyUpgrade(upgrade)\<close>.\<close>

definition buyUpgrade :: "upgrade \<Rightarrow> world \<Rightarrow> world" where
  "buyUpgrade u w =
     (if money (gs w) < price u then w
      else
        let g = gs w;
            owned = (case ownedUpgrades g of None \<Rightarrow> [] | Some l \<Rightarrow> l);
            w1 = w\<lparr>gs := g\<lparr>money := money g - price u,
                              ownedUpgrades := Some (owned @ [upgrade_id u])\<rparr>\<rparr>
        in (case effect u of None \<Rightarrow> w1 | Some e \<Rightarrow> e w1))"

text \<open>A sequence of purchases, in order.\<close>

definition buyAll :: "upgrade list \<Rightarrow> world \<Rightarrow> world" where
  "buyAll us w = foldl (\<lambda>w' u. buyUpgrade u w') w us"

text \<open>An effect keeps the balance non-negative.\<close>

definition effectKeepsMoney :: "upgrade \<Rightarrow> bool" where
  "effectKeepsMoney u =
     (case effect u of None \<Rightarrow> True
      | Some e \<Rightarrow> \<forall>w. 0 \<le> money (gs w) \<longrightarrow> 0 \<le> money (gs (e w)))"

subsection \<open>Array helpers\<close>

text \<open>
  \<^verbatim>\<open>Array.prototype.findIndex\<close> and \<^verbatim>\<open>indexOf\<close>: the first position that qualifies, \<open>None\<close>
  for the result \<^verbatim>\<open>-1\<close>.
\<close>

fun findIndex :: "('a \<Rightarrow> bool) \<Rightarrow> 'a list \<Rightarrow> nat option" where
  "findIndex P [] = None"
| "findIndex P (x # xs) = (if P x then Some 0 else map_option Suc (findIndex P xs))"

definition indexOf :: "'a list \<Rightarrow> 'a \<Rightarrow> nat option" where
  "indexOf xs x = findIndex (\<lambda>y. y = x) xs"

text \<open>\<^verbatim>\<open>xs.splice(i, 1)\<close>.\<close>

definition splice1 :: "nat \<Rightarrow> 'a list \<Rightarrow> 'a list" where
  "splice1 i xs = take i xs @ drop (Suc i) xs"

text \<open>
  \<^verbatim>\<open>xs[Math.floor(r * xs.length)]\<close> for a draw \<open>r\<close> of \<^verbatim>\<open>Math.random()\<close>; \<open>None\<close> is
  \<^verbatim>\<open>undefined\<close> (an index outside the array).
\<close>

definition pick :: "'a list \<Rightarrow> real \<Rightarrow> 'a option" where
  "pick xs r =
     (let i = \<lfloor>r * real (length xs)\<rfloor>
      in if 0 \<le> i \<and> nat i < length xs then Some (xs ! nat i) else None)"

subsection \<open>Customers leaving and the economy\<close>

text \<open>
  The assignment \<^verbatim>\<open>customer.userData.state = st\<close>. Only customers carry a state in this
  model: on another object (none is ever passed) \<open>userData\<close> stays as it is.
\<close>

definition setState :: "custState \<Rightarrow> userData \<Rightarrow> userData" where
  "setState st d = (case d of CustomerData t _ ord \<Rightarrow> CustomerData t st ord | _ \<Rightarrow> d)"

definition hasState :: "custState \<Rightarrow> userData \<Rightarrow> bool" where
  "hasState st d = (case d of CustomerData _ st' _ \<Rightarrow> st' = st | _ \<Rightarrow> False)"

text \<open>
  One run of the \<^verbatim>\<open>animate\<close> closure of \<^verbatim>\<open>animateCustomerLeave\<close>: a step towards the
  street, and past \<^verbatim>\<open>z = 12\<close> the removal of the customer from \<^verbatim>\<open>gameState.customers\<close>.
\<close>

definition leaveFrame :: "ref \<Rightarrow> world \<Rightarrow> world" where
  "leaveFrame c w =
     (if \<not> hasState Leaving (userData (heap w c)) then w
      else
        let ob = heap w c;
            z = posz ob + 1 / 10;
            w1 = w\<lparr>heap := (heap w)(c := ob\<lparr>posz := z\<rparr>)\<rparr>
        in if z < 12 then w1
           else w1\<lparr>gs := (gs w1)\<lparr>customers := remove1 c (customers (gs w1))\<rparr>\<rparr>)"

text \<open>\<^verbatim>\<open>animateCustomerLeave(customer)\<close>: it sets the state, then runs the first frame at once.\<close>

definition animateCustomerLeave :: "ref \<Rightarrow> world \<Rightarrow> world" where
  "animateCustomerLeave c w =
     leaveFrame c
       (w\<lparr>heap := (heap w)(c := (heap w c)\<lparr>userData := setState Leaving (userData (heap w c))\<rparr>)\<rparr>)"

text \<open>\<^verbatim>\<open>gameState.menuPrices[id] || 4\<close>: the fallback applies to every falsy value.\<close>

definition priceOr4 :: "(string \<rightharpoonup> real) \<Rightarrow> string \<Rightarrow> real" where
  "priceOr4 prices i = (case prices i of None \<Rightarrow> 4 | Some p \<Rightarrow> if p = 0 then 4 else p)"

text \<open>The \<^verbatim>\<open>reduce\<close> over the order's items.\<close>

definition orderPayment :: "(string \<rightharpoonup> real) \<Rightarrow> item list \<Rightarrow> real" where
  "orderPayment prices its = foldl (\<lambda>sum it. sum + priceOr4 prices (item_id it)) 0 its"

definition tipMultiplier :: "real \<Rightarrow> real" where
  "tipMultiplier q = (if q \<ge> 80 then 13 / 10 else if q \<ge> 50 then 11 / 10 else 8 / 10)"

definition orderTip :: "real \<Rightarrow> real \<Rightarrow> int" where
  "orderTip payment q = \<lfloor>payment * (2 / 10) * tipMultiplier q\<rfloor>"

definition ratingChange :: "real \<Rightarrow> real" where
  "ratingChange q = (if q \<ge> 80 then 1 / 10 else if q \<ge> 50 then 0 else - (1 / 10))"

text \<open>
  \<^verbatim>\<open>completeOrder(orderIndex, quality)\<close>. With an index outside \<^verbatim>\<open>activeOrders\<close> the script
  throws a TypeError at \<^verbatim>\<open>order.customer\<close>, before any write: the result \<open>None\<close>.
\<close>

definition completeOrder :: "nat \<Rightarrow> real \<Rightarrow> world \<Rightarrow> world option" where
  "completeOrder orderIndex q w =
     (let g = gs w in
      if orderIndex < length (activeOrders g) then
        let order = activeOrders g ! orderIndex;
            payment = orderPayment (menuPrices g) (items order);
            tip = real_of_int (orderTip payment q);
            total = payment + tip;
            g1 = g\<lparr>money := money g + total,
                   customersServed := customersServed g + 1,
                   rating := max 1 (min 5 (rating g + ratingChange q)),
                   activeOrders := splice1 orderIndex (activeOrders g)\<rparr>
        in Some (animateCustomerLeave (customer order) (w\<lparr>gs := g1\<rparr>))
      else None)"

subsection \<open>Serving\<close>

text \<open>\<^verbatim>\<open>!contents[ingredient]\<close> is false exactly when the flag is present and true.\<close>

definition flagged :: "(string \<rightharpoonup> bool) \<Rightarrow> string \<Rightarrow> bool" where
  "flagged c ingredient = (c ingredient = Some True)"

text \<open>The inner loop over \<^verbatim>\<open>Object.entries(recipe)\<close>, with its \<^verbatim>\<open>break\<close>; the result is \<^verbatim>\<open>matches\<close>.\<close>

fun recipeMatches :: "(string \<rightharpoonup> bool) \<Rightarrow> (string \<times> bool) list \<Rightarrow> bool" where
  "recipeMatches c [] = True"
| "recipeMatches c ((ingredient, required) # rest) =
     (if required \<and> \<not> flagged c ingredient then False else recipeMatches c rest)"

text \<open>The outer loop over \<^verbatim>\<open>order.items\<close>, with its \<^verbatim>\<open>break\<close>; the result is \<^verbatim>\<open>matchFound\<close>.\<close>

fun drinkMatches ::
  "(string \<rightharpoonup> (string \<times> bool) list) \<Rightarrow> (string \<rightharpoonup> bool) \<Rightarrow> item list \<Rightarrow> bool" where
  "drinkMatches recipes c [] = False"
| "drinkMatches recipes c (it # rest) =
     (if itype it = ''drink'' then
        (case recipes (item_id it) of
           Some recipe \<Rightarrow> if recipeMatches c recipe then True else drinkMatches recipes c rest
         | None \<Rightarrow> drinkMatches recipes c rest)
      else drinkMatches recipes c rest)"

text \<open>
  The value of \<^verbatim>\<open>matchFound\<close> after the two branches on \<^verbatim>\<open>heldType\<close>; it stays false for
  a held object that is neither a cup nor a pastry.
\<close>

definition matchFound ::
  "(string \<rightharpoonup> (string \<times> bool) list) \<Rightarrow> userData \<Rightarrow> item list \<Rightarrow> bool" where
  "matchFound recipes held its =
     (case held of
        PastryData _ \<Rightarrow> list_ex (\<lambda>it. itype it = ''pastry'') its
      | CupData c _ \<Rightarrow> drinkMatches recipes c its
      | _ \<Rightarrow> False)"

text \<open>\<^verbatim>\<open>held.userData.quality || 100\<close>.\<close>

definition heldQuality :: "userData \<Rightarrow> real" where
  "heldQuality d =
     (case d of
        CupData _ q \<Rightarrow> if q = 0 then 100 else q
      | PastryData q \<Rightarrow> if q = 0 then 100 else q
      | _ \<Rightarrow> 100)"

text \<open>
  The walk to the root customer object. The argument of \<^verbatim>\<open>serveToCustomer\<close> is given
  with its ancestors below the scene: its parent first, the last one being the node
  whose parent is the scene or null.
\<close>

fun rootCustomer :: "(ref \<Rightarrow> object3d) \<Rightarrow> ref \<Rightarrow> ref list \<Rightarrow> ref" where
  "rootCustomer h c [] = c"
| "rootCustomer h c (p # ps) =
     (case userData (h c) of
        CustomerData _ _ _ \<Rightarrow> c
      | _ \<Rightarrow> rootCustomer h p ps)"

text \<open>
  The search for the customer's order: by identity first, then the fallback loop that
  compares \<^verbatim>\<open>uuid\<close>s.
\<close>

definition findOrderIndex :: "world \<Rightarrow> ref \<Rightarrow> nat option" where
  "findOrderIndex w c =
     (case findIndex (\<lambda>order. customer order = c) (activeOrders (gs w)) of
        Some i \<Rightarrow> Some i
      | None \<Rightarrow>
          findIndex (\<lambda>order. uuid (heap w (customer order)) = uuid (heap w c))
            (activeOrders (gs w)))"

text \<open>What \<^verbatim>\<open>serveToCustomer\<close> reports; \<open>Threw\<close> is an uncaught TypeError.\<close>

datatype outcome =
  Served | NothingToServe | StillWalking | OrderPending | NoOrder | WrongItem | Threw

text \<open>\<^verbatim>\<open>serveToCustomer(customerObj)\<close>.\<close>

definition serveToCustomer :: "registry \<Rightarrow> ref \<Rightarrow> ref list \<Rightarrow> world \<Rightarrow> outcome \<times> world" where
  "serveToCustomer R customerObj ancestors w =
     (case grabbedObject w of
        None \<Rightarrow> (NothingToServe, w)
      | Some held \<Rightarrow>
          let c = rootCustomer (heap w) customerObj ancestors in
          if hasState Entering (userData (heap w c)) then (StillWalking, w)
          else
            (case findOrderIndex w c of
               None \<Rightarrow>
                 (case userData (heap w c) of
                    CustomerData _ _ _ \<Rightarrow> (OrderPending, w)
                  | _ \<Rightarrow> (NoOrder, w))
             | Some orderIndex \<Rightarrow>
                 let order = activeOrders (gs w) ! orderIndex;
                     q = heldQuality (userData (heap w held))
                 in if matchFound (DRINK_RECIPES R) (userData (heap w held)) (items order)
                    then
                      (case completeOrder orderIndex q w of
                         Some w1 \<Rightarrow> (Served, w1\<lparr>grabbedObject := None\<rparr>)
                       | None \<Rightarrow> (Threw, w))
                    else (WrongItem, w)))"

subsection \<open>Held items\<close>

text \<open>A new scene object; \<^verbatim>\<open>uuid\<close>s are unique, the model takes the reference.\<close>

definition newObject :: "userData \<Rightarrow> real \<Rightarrow> real \<Rightarrow> world \<Rightarrow> world" where
  "newObject d x z w =
     w\<lparr>heap := (heap w)(nextRef w :=
            \<lparr>uuid = nextRef w, userData = d, posx = x, posz = z, targetPos = (0, 0)\<rparr>),
        nextRef := Suc (nextRef w)\<rparr>"

definition emptyContents :: "string \<rightharpoonup> bool" where
  "emptyContents =
     [''espresso'' \<mapsto> False, ''milk'' \<mapsto> False, ''vanilla'' \<mapsto> False,
      ''caramel'' \<mapsto> False, ''chocolate'' \<mapsto> False]"

text \<open>\<^verbatim>\<open>grabCup()\<close> and \<^verbatim>\<open>grabPastry()\<close>.\<close>

definition grabCup :: "world \<Rightarrow> world" where
  "grabCup w = (newObject (CupData emptyContents 100) 0 0 w)\<lparr>grabbedObject := Some (nextRef w)\<rparr>"

definition grabPastry :: "world \<Rightarrow> world" where
  "grabPastry w = (newObject (PastryData 100) 0 0 w)\<lparr>grabbedObject := Some (nextRef w)\<rparr>"

text \<open>\<^verbatim>\<open>dropItem()\<close> and \<^verbatim>\<open>trashItem()\<close>: both empty the hand.\<close>

definition dropItem :: "world \<Rightarrow> world" where
  "dropItem w = w\<lparr>grabbedObject := None\<rparr>"

definition trashItem :: "world \<Rightarrow> world" where
  "trashItem w = w\<lparr>grabbedObject := None\<rparr>"

text \<open>
  \<^verbatim>\<open>addToCup(cup, contentType)\<close>: it returns at once on an object without contents, and
  otherwise writes the flag. Nothing else of \<^verbatim>\<open>userData\<close> is written.
\<close>

definition addToCup :: "ref \<Rightarrow> string \<Rightarrow> world \<Rightarrow> world" where
  "addToCup cup contentType w =
     (case userData (heap w cup) of
        CupData c q \<Rightarrow>
          w\<lparr>heap := (heap w)(cup := (heap w cup)\<lparr>userData := CupData (c(contentType \<mapsto> True)) q\<rparr>)\<rparr>
      | _ \<Rightarrow> w)"

subsection \<open>Mini-games\<close>

text \<open>
  \<^verbatim>\<open>startMiniGame(type, callback)\<close>; \<open>r\<close> is the draw of \<^verbatim>\<open>Math.random()\<close> of the timing
  game, \<open>now\<close> the value of \<^verbatim>\<open>Date.now()\<close>.
\<close>

definition startMiniGame :: "miniGameType \<Rightarrow> ref \<times> string \<Rightarrow> real \<Rightarrow> int \<Rightarrow> world \<Rightarrow> world" where
  "startMiniGame ty cb r now w =
     (let m = (mg w)\<lparr>active := True, mtype := Some ty, callback := Some cb, quality := 0,
                     markerPos := 0, markerDirection := 1, tapProgress := 0,
                     mgStartTime := Some now\<rparr>
      in w\<lparr>mg := (case ty of
                    Timing \<Rightarrow> m\<lparr>targetStart := 30 + r * 20, targetEnd := (30 + r * 20) + 20\<rparr>
                  | Tap \<Rightarrow> m)\<rparr>)"

text \<open>\<^verbatim>\<open>endMiniGame()\<close>: the callback, then \<^verbatim>\<open>active = false\<close>.\<close>

definition endMiniGame :: "world \<Rightarrow> world" where
  "endMiniGame w =
     (let w1 = (case callback (mg w) of
                  None \<Rightarrow> w
                | Some (cup, contentType) \<Rightarrow> addToCup cup contentType w)
      in w1\<lparr>mg := (mg w1)\<lparr>active := False\<rparr>\<rparr>)"

text \<open>The score of the timing game at marker position \<open>pos\<close>.\<close>

definition timingQuality :: "real \<Rightarrow> real \<Rightarrow> real \<Rightarrow> real" where
  "timingQuality ts te pos =
     (let inPerfect = (pos \<ge> ts + 5 \<and> pos \<le> te - 5);
          inGood = (pos \<ge> ts \<and> pos \<le> te)
      in if inPerfect then 100
         else if inGood then 70
         else if pos \<ge> ts - 10 \<and> pos \<le> te + 10 then 40
         else 10)"

text \<open>
  The score of the tap game. Without a start time the difference is NaN and both
  comparisons are false.
\<close>

definition tapQuality :: "int option \<Rightarrow> int \<Rightarrow> real" where
  "tapQuality start now =
     (case start of
        None \<Rightarrow> 40
      | Some t \<Rightarrow> let elapsed = now - t in if elapsed < 2000 then 100 else if elapsed < 3500 then 70 else 40)"

text \<open>\<^verbatim>\<open>handleMiniGameInput()\<close>.\<close>

definition handleMiniGameInput :: "int \<Rightarrow> world \<Rightarrow> world" where
  "handleMiniGameInput now w =
     (let m = mg w in
      if \<not> active m then w
      else
        (case mtype m of
           Some Timing \<Rightarrow>
             endMiniGame
               (w\<lparr>mg := m\<lparr>quality := timingQuality (targetStart m) (targetEnd m) (markerPos m)\<rparr>\<rparr>)
         | Some Tap \<Rightarrow>
             let m1 = m\<lparr>tapProgress := tapProgress m + 1\<rparr> in
             if tapProgress m1 \<ge> tapRequired m1
             then endMiniGame (w\<lparr>mg := m1\<lparr>quality := tapQuality (mgStartTime m1) now\<rparr>\<rparr>)
             else w\<lparr>mg := m1\<rparr>
         | None \<Rightarrow> w))"

text \<open>\<^verbatim>\<open>updateMiniGame()\<close>, run on every frame.\<close>

definition updateMiniGame :: "world \<Rightarrow> world" where
  "updateMiniGame w =
     (let m = mg w in
      if \<not> active m then w
      else
        (case mtype m of
           Some Timing \<Rightarrow>
             let p = markerPos m + markerDirection m * (12 / 10);
                 d = (if p \<ge> 100 \<or> p \<le> 0 then markerDirection m * (- 1) else markerDirection m)
             in w\<lparr>mg := m\<lparr>markerPos := p, markerDirection := d\<rparr>\<rparr>
         | Some Tap \<Rightarrow>
             if tapProgress m > 0 then w\<lparr>mg := m\<lparr>tapProgress := tapProgress m - 3 / 100\<rparr>\<rparr> else w
         | None \<Rightarrow> w))"

text \<open>\<^verbatim>\<open>cancelMiniGame()\<close>.\<close>

definition cancelMiniGame :: "world \<Rightarrow> world" where
  "cancelMiniGame w = w\<lparr>mg := (mg w)\<lparr>active := False, quality := 0\<rparr>\<rparr>"

subsection \<open>Customers arriving\<close>

text \<open>
  \<^verbatim>\<open>generateOrder()\<close> with its three draws of \<^verbatim>\<open>Math.random()\<close>. Where a category of
  the menu is empty the script stores \<^verbatim>\<open>undefined\<close> as an order item, which every later
  reader dereferences: the result \<open>None\<close>.
\<close>

definition generateOrder :: "item list \<Rightarrow> real \<Rightarrow> real \<Rightarrow> real \<Rightarrow> item list option" where
  "generateOrder menu r1 r2 r3 =
     (case pick (filter (\<lambda>i. itype i = ''drink'') menu) r1 of
        None \<Rightarrow> None
      | Some drink \<Rightarrow>
          if r2 < 3 / 10 then
            (case pick (filter (\<lambda>i. itype i = ''pastry'') menu) r3 of
               None \<Rightarrow> None
             | Some pastry \<Rightarrow> Some [drink, pastry])
          else Some [drink])"

text \<open>\<^verbatim>\<open>addOrder(customer)\<close>; the items are the customer's \<^verbatim>\<open>userData.order\<close>.\<close>

definition addOrder :: "int \<Rightarrow> ref \<Rightarrow> world \<Rightarrow> world" where
  "addOrder now c w =
     (case userData (heap w c) of
        CustomerData _ _ ord \<Rightarrow>
          w\<lparr>gs := (gs w)\<lparr>activeOrders :=
                 activeOrders (gs w) @ [\<lparr>customer = c, items = ord, startTime = now\<rparr>]\<rparr>\<rparr>
      | _ \<Rightarrow> w)"

text \<open>
  One run of the \<^verbatim>\<open>animate\<close> closure of \<^verbatim>\<open>animateCustomerEnter\<close>. The test
  \<^verbatim>\<open>Math.sqrt(dx * dx + dz * dz) > 0.1\<close> is written on the squares.
\<close>

definition enterFrame :: "int \<Rightarrow> ref \<Rightarrow> world \<Rightarrow> world" where
  "enterFrame now c w =
     (if \<not> hasState Entering (userData (heap w c)) then w
      else
        let ob = heap w c;
            dx = fst (targetPos ob) - posx ob;
            dz = snd (targetPos ob) - posz ob
        in if dx * dx + dz * dz > 1 / 100
           then w\<lparr>heap := (heap w)(c := ob\<lparr>posx := posx ob + dx * (8 / 100),
                                              posz := posz ob + dz * (8 / 100)\<rparr>)\<rparr>
           else addOrder now c
                  (w\<lparr>heap := (heap w)(c := ob\<lparr>userData := setState Waiting (userData ob)\<rparr>)\<rparr>))"

text \<open>
  \<^verbatim>\<open>animateCustomerEnter(customer)\<close>: the queue slot is fixed, then the first frame runs at
  once. \<open>None\<close>: no slot (the script throws at \<^verbatim>\<open>targetPos.x\<close>).
\<close>

definition animateCustomerEnter :: "registry \<Rightarrow> int \<Rightarrow> ref \<Rightarrow> world \<Rightarrow> world option" where
  "animateCustomerEnter R now c w =
     (case indexOf (customers (gs w)) c of
        None \<Rightarrow> None
      | Some queueIndex \<Rightarrow>
          if QUEUE_POSITIONS R = [] then None
          else
            let tp = QUEUE_POSITIONS R ! (queueIndex mod length (QUEUE_POSITIONS R))
            in Some (enterFrame now c (w\<lparr>heap := (heap w)(c := (heap w c)\<lparr>targetPos := tp\<rparr>)\<rparr>)))"

text \<open>
  \<^verbatim>\<open>spawnCustomer()\<close>; \<open>rt\<close> is the draw for the customer type, \<open>rd\<close>, \<open>rc\<close>, \<open>rp\<close> are
  the draws of \<^verbatim>\<open>generateOrder\<close>. \<open>None\<close>: the registry has no customer type (a TypeError
  at \<^verbatim>\<open>typeData.color\<close>), or one of the failures above.
\<close>

definition spawnCustomer ::
  "registry \<Rightarrow> real \<Rightarrow> real \<Rightarrow> real \<Rightarrow> real \<Rightarrow> int \<Rightarrow> world \<Rightarrow> world option" where
  "spawnCustomer R rt rd rc rp now w =
     (if length (customers (gs w)) \<ge> MAX_CUSTOMERS R then Some w
      else
        (case pick (CUSTOMER_TYPES R) rt of
           None \<Rightarrow> None
         | Some ty \<Rightarrow>
             (case generateOrder (MENU_ITEMS R) rd rc rp of
                None \<Rightarrow> None
              | Some ord \<Rightarrow>
                  let c = nextRef w;
                      w1 = newObject (CustomerData ty Entering ord) 0 9 w;
                      w2 = w1\<lparr>gs := (gs w1)\<lparr>customers := customers (gs w1) @ [c]\<rparr>\<rparr>
                  in animateCustomerEnter R now c w2)))"

subsection \<open>The session\<close>

text \<open>The state when the script is loaded: the literals of the global declarations.\<close>

definition initialWorld :: world where
  "initialWorld =
     \<lparr>gs = \<lparr>mode = None, isPaused = False, isPlaying = False, money = 100, rating = 5,
            customersServed = 0, activeOrders = [], customers = [], menuPrices = Map.empty,
            ownedUpgrades = None\<rparr>,
      grabbedObject = None,
      mg = \<lparr>active = False, mtype = None, markerPos = 0, markerDirection = 1,
            targetStart = 35, targetEnd = 65, tapProgress = 0, tapRequired = 12,
            quality = 0, callback = None, mgStartTime = None\<rparr>,
      heap = (\<lambda>r. \<lparr>uuid = r, userData = NoData, posx = 0, posz = 0, targetPos = (0, 0)\<rparr>),
      nextRef = 0\<rparr>"

text \<open>\<^verbatim>\<open>initMenuPrices()\<close>, the part of \<^verbatim>\<open>init()\<close> that writes the state.\<close>

definition initMenuPrices :: "registry \<Rightarrow> world \<Rightarrow> world" where
  "initMenuPrices R w =
     w\<lparr>gs := (gs w)\<lparr>menuPrices :=
            foldl (\<lambda>m it. m(item_id it \<mapsto> basePrice it)) (menuPrices (gs w)) (MENU_ITEMS R)\<rparr>\<rparr>"

text \<open>
  \<^verbatim>\<open>startGame(mode)\<close> and \<^verbatim>\<open>quitToMenu()\<close>. The timers that \<^verbatim>\<open>startGame\<close> sets call
  \<^verbatim>\<open>spawnCustomer\<close> later: they are events of their own.
\<close>

definition startGame :: "registry \<Rightarrow> string \<Rightarrow> world \<Rightarrow> world" where
  "startGame R m w =
     w\<lparr>gs := (gs w)\<lparr>mode := Some m, isPlaying := True, money := STARTING_MONEY R, rating := 5,
                     customersServed := 0, activeOrders := [], customers := []\<rparr>\<rparr>"

definition quitToMenu :: "world \<Rightarrow> world" where
  "quitToMenu w =
     w\<lparr>gs := (gs w)\<lparr>isPlaying := False, isPaused := False, customers := [], activeOrders := []\<rparr>\<rparr>"

text \<open>
  What the ray from the camera hits among \<^verbatim>\<open>interactableObjects\<close>, after the walk to the
  first ancestor with a \<^verbatim>\<open>userData.type\<close>: nothing, a station of the counter (its type
  and, for a syrup bottle, its \<^verbatim>\<open>syrupType\<close>), or a customer with its ancestors below the
  scene. Only customers have the type \<^verbatim>\<open>'customer'\<close>; a hit on any other object of the
  store does not occur and changes nothing.
\<close>

datatype rayTarget = NoTarget | Station string string | CustomerHit ref "ref list"

text \<open>\<^verbatim>\<open>tryInteract()\<close>.\<close>

definition tryInteract :: "registry \<Rightarrow> rayTarget \<Rightarrow> real \<Rightarrow> int \<Rightarrow> world \<Rightarrow> world" where
  "tryInteract R target r now w =
     (if active (mg w) then handleMiniGameInput now w
      else
        (case grabbedObject w of
           Some heldItem \<Rightarrow>
             (case target of
                NoTarget \<Rightarrow> dropItem w
              | Station ty syrupType \<Rightarrow>
                  let isCup = (case userData (heap w heldItem) of CupData _ _ \<Rightarrow> True | _ \<Rightarrow> False)
                  in if ty = ''espresso'' then
                       (if isCup then startMiniGame Timing (heldItem, ''espresso'') r now w else w)
                     else if ty = ''milk'' then
                       (if isCup then startMiniGame Tap (heldItem, ''milk'') r now w else w)
                     else if ty = ''syrup'' then
                       (if isCup then addToCup heldItem syrupType w else w)
                     else if ty = ''trash'' then trashItem w
                     else dropItem w
              | CustomerHit c ancestors \<Rightarrow>
                  (case userData (heap w c) of
                     CustomerData _ _ _ \<Rightarrow> snd (serveToCustomer R c ancestors w)
                   | _ \<Rightarrow> w))
         | None \<Rightarrow>
             (case target of
                Station ty _ \<Rightarrow>
                  if ty = ''cup_dispenser'' then grabCup w
                  else if ty = ''pastry'' then grabPastry w
                  else w
              | _ \<Rightarrow> w)))"

text \<open>
  The events of a session: the menu buttons, the spawn timers, the animation frames of
  a customer, the keys E and Escape, and the frame update of the mini-game.
\<close>

datatype event =
    StartGame string
  | QuitToMenu
  | SpawnCustomer real real real real int
  | EnterFrame int ref
  | LeaveFrame ref
  | KeyE rayTarget real int
  | KeyEscape
  | UpdateMiniGame

text \<open>
  The keys go through \<^verbatim>\<open>onKeyDown\<close>, which ignores them unless a game is playing. E calls
  \<^verbatim>\<open>tryInteract\<close>. Escape cancels an active mini-game; without one it closes the shop or
  toggles the pause, which is left out here.
\<close>

definition exec :: "registry \<Rightarrow> event \<Rightarrow> world \<Rightarrow> world option" where
  "exec R e w =
     (case e of
        StartGame m \<Rightarrow> Some (startGame R m w)
      | QuitToMenu \<Rightarrow> Some (quitToMenu w)
      | SpawnCustomer rt rd rc rp now \<Rightarrow> spawnCustomer R rt rd rc rp now w
      | EnterFrame now c \<Rightarrow> Some (enterFrame now c w)
      | LeaveFrame c \<Rightarrow> Some (leaveFrame c w)
      | KeyE target r now \<Rightarrow>
          Some (if isPlaying (gs w) then tryInteract R target r now w else w)
      | KeyEscape \<Rightarrow>
          Some (if isPlaying (gs w) \<and> active (mg w) then cancelMiniGame w else w)
      | UpdateMiniGame \<Rightarrow> Some (updateMiniGame w))"

text \<open>A run of events from a state; \<open>None\<close> once an event fails.\<close>

fun run :: "registry \<Rightarrow> event list \<Rightarrow> world \<Rightarrow> world option" where
  "run R [] w = Some w"
| "run R (e # es) w = (case exec R e w of None \<Rightarrow> None | Some w1 \<Rightarrow> run R es w1)"

subsection \<open>Properties of states\<close>

text \<open>
  No active order belongs to a customer who is still entering. The two side conditions
  say that unused references hold no object yet and that orders mention used references.
\<close>

definition ordersSettled :: "world \<Rightarrow> bool" where
  "ordersSettled w \<longleftrightarrow>
     (\<forall>ord \<in> set (activeOrders (gs w)).
        customer ord < nextRef w \<and> \<not> hasState Entering (userData (heap w (customer ord))))
   \<and> (\<forall>r \<ge> nextRef w. userData (heap w r) = NoData)"

text \<open>Every cup carries the quality it was created with.\<close>

definition cupsPristine :: "world \<Rightarrow> bool" where
  "cupsPristine w \<longleftrightarrow> (\<forall>r c q. userData (heap w r) = CupData c q \<longrightarrow> q = 100)"

subsection \<open>A sample session\<close>

text \<open>A small menu, one queue slot close to the door, and a session played on it.\<close>

definition espresso :: item where
  "espresso = \<lparr>item_id = ''espresso'', name = ''Espresso'', icon = ''E'', itype = ''drink'',
                basePrice = 5\<rparr>"

definition latte :: item where
  "latte = \<lparr>item_id = ''latte'', name = ''Latte'', icon = ''L'', itype = ''drink'',
             basePrice = 6\<rparr>"

definition croissant :: item where
  "croissant = \<lparr>item_id = ''croissant'', name = ''Croissant'', icon = ''C'', itype = ''pastry'',
                 basePrice = 4\<rparr>"

definition sampleRegistry :: registry where
  "sampleRegistry =
     \<lparr>MENU_ITEMS = [espresso, latte, croissant],
      DRINK_RECIPES = [''espresso'' \<mapsto> [(''espresso'', True)],
                       ''latte'' \<mapsto> [(''espresso'', True), (''milk'', True)]],
      CUSTOMER_TYPES = [''student''],
      QUEUE_POSITIONS = [(0, 222 / 25)],
      MAX_CUSTOMERS = 5,
      STARTING_MONEY = 100\<rparr>"

definition world0 :: world where
  "world0 = initMenuPrices sampleRegistry initialWorld"

text \<open>The game starts and a customer who wants an espresso is spawned.\<close>

definition arrival :: "event list" where
  "arrival = [StartGame ''relaxed'', SpawnCustomer 0 0 (1 / 2) 0 1000]"

definition afterSpawn :: world where
  "afterSpawn = the (run sampleRegistry arrival world0)"

text \<open>Three frames later the customer stands at the queue slot.\<close>

definition arrived :: "event list" where
  "arrived = arrival @ [EnterFrame 1016 0, EnterFrame 1032 0, EnterFrame 1048 0]"

definition afterArrival :: world where
  "afterArrival = the (run sampleRegistry arrived world0)"

text \<open>
  The player takes a cup, starts the espresso game and presses E at once: the marker
  is at 0, far from the target, a miss.
\<close>

definition brew :: "event list" where
  "brew = arrived @
     [KeyE (Station ''cup_dispenser'' []) 0 2000,
      KeyE (Station ''espresso'' []) (1 / 4) 3000,
      KeyE NoTarget 0 3100]"

definition afterBrew :: world where
  "afterBrew = the (run sampleRegistry brew world0)"

text \<open>The cup is served to the customer.\<close>

definition afterServe :: world where
  "afterServe = the (run sampleRegistry (brew @ [KeyE (CustomerHit 0 []) 0 5000]) world0)"

text \<open>A milk game in which the player taps once and then waits for 34 frames.\<close>

definition idleTaps :: "event list" where
  "idleTaps =
     [StartGame ''relaxed'',
      KeyE (Station ''cup_dispenser'' []) 0 2000,
      KeyE (Station ''milk'' []) 0 3000,
      KeyE NoTarget 0 3100] @ replicate 34 UpdateMiniGame"

definition afterIdleTaps :: world where
  "afterIdleTaps = the (run sampleRegistry idleTaps world0)"

text \<open>Two upgrades of the shop, one with an effect on the tap game.\<close>

definition grinder :: upgrade where
  "grinder = \<lparr>upgrade_id = ''grinder'', upgrade_name = ''Grinder'', price = 60, effect = None\<rparr>"

definition frother :: upgrade where
  "frother = \<lparr>upgrade_id = ''frother'', upgrade_name = ''Frother'', price = 30,
               effect = Some (\<lambda>w. w\<lparr>mg := (mg w)\<lparr>tapRequired := 10\<rparr>\<rparr>)\<rparr>"

text \<open>Two cups for a latte, the second with vanilla on top.\<close>

definition plainCup :: "string \<rightharpoonup> bool" where
  "plainCup = emptyContents(''espresso'' \<mapsto> True, ''milk'' \<mapsto> True)"

definition richCup :: "string \<rightharpoonup> bool" where
  "richCup = plainCup(''vanilla'' \<mapsto> True)"

text \<open>A timing game over the target of the initial state, the marker at \<open>p\<close>.\<close>

definition timingAt :: "real \<Rightarrow> world" where
  "timingAt p =
     initialWorld\<lparr>mg := (mg initialWorld)\<lparr>active := True, mtype := Some Timing, markerPos := p\<rparr>\<rparr>"

text \<open>A milk game that has just started, and the same game after eleven taps.\<close>

definition startTaps :: "event list" where
  "startTaps =
     [StartGame ''relaxed'',
      KeyE (Station ''cup_dispenser'' []) 0 2000,
      KeyE (Station ''milk'' []) 0 3000]"

definition tapStarted :: world where
  "tapStarted = the (run sampleRegistry startTaps world0)"

definition elevenTaps :: world where
  "elevenTaps =
     the (run sampleRegistry (startTaps @ replicate 11 (KeyE NoTarget 0 3500)) world0)"

text \<open>The state in which the sample session spawns its customer.\<close>

definition started :: world where
  "started = startGame sampleRegistry ''relaxed'' world0"

section \<open>Lemmas\<close>

subsection \<open>Arrays\<close>

lemma findIndex_Some: "findIndex P xs = Some i \<Longrightarrow> i < length xs \<and> P (xs ! i)"
  by (induction xs arbitrary: i) (auto split: if_splits)

lemma findOrderIndex_lt: "findOrderIndex w c = Some i \<Longrightarrow> i < length (activeOrders (gs w))"
  by (auto simp: findOrderIndex_def split: option.splits dest: findIndex_Some)

lemma length_splice1: "i < length xs \<Longrightarrow> Suc (length (splice1 i xs)) = length xs"
  by (simp add: splice1_def)

lemma set_splice1: "set (splice1 i xs) \<subseteq> set xs"
  by (auto simp: splice1_def dest: in_set_takeD in_set_dropD)


subsection \<open>Matching\<close>

lemma recipeMatches_iff:
  "recipeMatches c recipe \<longleftrightarrow>
     (\<forall>(ingredient, required) \<in> set recipe. required \<longrightarrow> flagged c ingredient)"
  by (induction c recipe rule: recipeMatches.induct) auto

lemma drinkMatches_iff:
  "drinkMatches recipes c its \<longleftrightarrow>
     (\<exists>it \<in> set its. itype it = ''drink'' \<and>
        (\<exists>recipe. recipes (item_id it) = Some recipe \<and> recipeMatches c recipe))"
  by (induction recipes c its rule: drinkMatches.induct) (auto split: option.splits)

lemma recipeMatches_cong:
  "(\<And>ingredient. (ingredient, True) \<in> set recipe \<Longrightarrow> flagged c ingredient = flagged c' ingredient)
   \<Longrightarrow> recipeMatches c recipe = recipeMatches c' recipe"
  unfolding recipeMatches_iff by auto

lemma flagged_upd: "flagged c i \<Longrightarrow> flagged (c(k \<mapsto> True)) i"
  by (simp add: flagged_def)

lemma recipeMatches_mono: "recipeMatches c recipe \<Longrightarrow> recipeMatches (c(k \<mapsto> True)) recipe"
  unfolding recipeMatches_iff using flagged_upd by fastforce

lemma drinkMatches_mono:
  "drinkMatches recipes c its \<Longrightarrow> drinkMatches recipes (c(k \<mapsto> True)) its"
  unfolding drinkMatches_iff using recipeMatches_mono by blast

subsection \<open>Leaving and payment\<close>



lemma hasState_setState:
  "hasState st (setState st' d) \<longleftrightarrow> (\<exists>t s0 ord. d = CustomerData t s0 ord) \<and> st = st'"
  by (auto simp: hasState_def setState_def split: userData.splits)

lemma leaveFrame_frame:
  "activeOrders (gs (leaveFrame c w)) = activeOrders (gs w)
   \<and> money (gs (leaveFrame c w)) = money (gs w)
   \<and> rating (gs (leaveFrame c w)) = rating (gs w)
   \<and> customersServed (gs (leaveFrame c w)) = customersServed (gs w)
   \<and> grabbedObject (leaveFrame c w) = grabbedObject w
   \<and> mg (leaveFrame c w) = mg w \<and> nextRef (leaveFrame c w) = nextRef w"
  by (simp add: leaveFrame_def Let_def)

lemma leaveFrame_heap_other: "r \<noteq> c \<Longrightarrow> heap (leaveFrame c w) r = heap w r"
  by (simp add: leaveFrame_def Let_def)

lemma leaveFrame_userData: "userData (heap (leaveFrame c w) r) = userData (heap w r)"
  by (simp add: leaveFrame_def Let_def)

lemma animateCustomerLeave_frame:
  "activeOrders (gs (animateCustomerLeave c w)) = activeOrders (gs w)
   \<and> money (gs (animateCustomerLeave c w)) = money (gs w)
   \<and> rating (gs (animateCustomerLeave c w)) = rating (gs w)
   \<and> customersServed (gs (animateCustomerLeave c w)) = customersServed (gs w)
   \<and> grabbedObject (animateCustomerLeave c w) = grabbedObject w
   \<and> mg (animateCustomerLeave c w) = mg w
   \<and> nextRef (animateCustomerLeave c w) = nextRef w"
  by (simp add: animateCustomerLeave_def leaveFrame_frame)

lemma animateCustomerLeave_heap_other:
  "r \<noteq> c \<Longrightarrow> heap (animateCustomerLeave c w) r = heap w r"
  by (simp add: animateCustomerLeave_def leaveFrame_heap_other)

lemma animateCustomerLeave_userData:
  "userData (heap (animateCustomerLeave c w) r) =
     (if r = c then setState Leaving (userData (heap w c)) else userData (heap w r))"
  by (simp add: animateCustomerLeave_def leaveFrame_userData)

lemma completeOrder_Some:
  assumes "completeOrder i q w = Some w1"
  shows "i < length (activeOrders (gs w))"
    and "activeOrders (gs w1) = splice1 i (activeOrders (gs w))"
    and "money (gs w1) =
           money (gs w) + orderPayment (menuPrices (gs w)) (items (activeOrders (gs w) ! i))
           + real_of_int
               (orderTip (orderPayment (menuPrices (gs w)) (items (activeOrders (gs w) ! i))) q)"
    and "customersServed (gs w1) = customersServed (gs w) + 1"
    and "rating (gs w1) = max 1 (min 5 (rating (gs w) + ratingChange q))"
    and "grabbedObject w1 = grabbedObject w"
    and "\<And>r. r \<noteq> customer (activeOrders (gs w) ! i) \<Longrightarrow> heap w1 r = heap w r"
    and "\<And>r. userData (heap w1 r) =
           (if r = customer (activeOrders (gs w) ! i)
            then setState Leaving (userData (heap w r)) else userData (heap w r))"
    and "nextRef w1 = nextRef w"
  using assms
  by (auto simp: completeOrder_def Let_def animateCustomerLeave_frame
      animateCustomerLeave_heap_other animateCustomerLeave_userData split: if_splits)

lemma completeOrder_defined:
  "i < length (activeOrders (gs w)) \<Longrightarrow> \<exists>w1. completeOrder i q w = Some w1"
  by (simp add: completeOrder_def Let_def)

subsection \<open>Serving\<close>

lemma serveToCustomer_cases:
  assumes "serveToCustomer R cobj anc w = (out, w')"
  shows "(out \<noteq> Served \<and> out \<noteq> Threw \<and> w' = w)
       \<or> (out = Served \<and> (\<exists>held i w1. grabbedObject w = Some held
             \<and> findOrderIndex w (rootCustomer (heap w) cobj anc) = Some i
             \<and> completeOrder i (heldQuality (userData (heap w held))) w = Some w1
             \<and> w' = w1\<lparr>grabbedObject := None\<rparr>))"
proof (cases "grabbedObject w")
  case None
  with assms show ?thesis by (auto simp: serveToCustomer_def)
next
  case (Some held)
  show ?thesis
  proof (cases "findOrderIndex w (rootCustomer (heap w) cobj anc)")
    case None
    with Some assms show ?thesis
      by (auto simp: serveToCustomer_def Let_def split: if_splits userData.splits)
  next
    case (Some i)
    then obtain w1 where "completeOrder i (heldQuality (userData (heap w held))) w = Some w1"
      using completeOrder_defined findOrderIndex_lt by blast
    with Some \<open>grabbedObject w = Some held\<close> assms show ?thesis
      by (auto simp: serveToCustomer_def Let_def split: if_splits)
  qed
qed

text \<open>Which outcome is reported when.\<close>

lemma serveToCustomer_outcome:
  assumes "serveToCustomer R cobj anc w = (out, w')"
  shows "(out = NothingToServe \<longleftrightarrow> grabbedObject w = None)"
    and "(out = StillWalking \<longleftrightarrow>
           grabbedObject w \<noteq> None
           \<and> hasState Entering (userData (heap w (rootCustomer (heap w) cobj anc))))"
    and "(out = OrderPending \<or> out = NoOrder \<longleftrightarrow>
           grabbedObject w \<noteq> None
           \<and> \<not> hasState Entering (userData (heap w (rootCustomer (heap w) cobj anc)))
           \<and> findOrderIndex w (rootCustomer (heap w) cobj anc) = None)"
    and "(out = WrongItem \<longleftrightarrow>
           (\<exists>held i. grabbedObject w = Some held
              \<and> \<not> hasState Entering (userData (heap w (rootCustomer (heap w) cobj anc)))
              \<and> findOrderIndex w (rootCustomer (heap w) cobj anc) = Some i
              \<and> \<not> matchFound (DRINK_RECIPES R) (userData (heap w held))
                     (items (activeOrders (gs w) ! i))))"
proof -
  have d: "findOrderIndex w c = Some i \<Longrightarrow> completeOrder i q w \<noteq> None" for c i q
    using completeOrder_defined findOrderIndex_lt by fastforce
  show "(out = NothingToServe \<longleftrightarrow> grabbedObject w = None)"
    using assms d
    by (auto simp: serveToCustomer_def Let_def split: option.splits if_splits userData.splits)
  show "(out = StillWalking \<longleftrightarrow>
           grabbedObject w \<noteq> None
           \<and> hasState Entering (userData (heap w (rootCustomer (heap w) cobj anc))))"
    using assms d
    by (auto simp: serveToCustomer_def Let_def split: option.splits if_splits userData.splits)
  show "(out = OrderPending \<or> out = NoOrder \<longleftrightarrow>
           grabbedObject w \<noteq> None
           \<and> \<not> hasState Entering (userData (heap w (rootCustomer (heap w) cobj anc)))
           \<and> findOrderIndex w (rootCustomer (heap w) cobj anc) = None)"
    using assms d
    by (auto simp: serveToCustomer_def Let_def split: option.splits if_splits userData.splits)
  show "(out = WrongItem \<longleftrightarrow>
           (\<exists>held i. grabbedObject w = Some held
              \<and> \<not> hasState Entering (userData (heap w (rootCustomer (heap w) cobj anc)))
              \<and> findOrderIndex w (rootCustomer (heap w) cobj anc) = Some i
              \<and> \<not> matchFound (DRINK_RECIPES R) (userData (heap w held))
                     (items (activeOrders (gs w) ! i))))"
    using assms d
    by (auto simp: serveToCustomer_def Let_def split: option.splits if_splits userData.splits)
qed

subsection \<open>Mini-games\<close>

lemma addToCup_mg: "mg (addToCup cup ct w) = mg w"
  by (simp add: addToCup_def split: userData.splits)

lemma endMiniGame_mg: "mg (endMiniGame w) = (mg w)\<lparr>active := False\<rparr>"
  by (simp add: endMiniGame_def Let_def addToCup_mg split: option.splits prod.splits)

lemma updateMiniGame_active: "active (mg (updateMiniGame w)) = active (mg w)"
  by (simp add: updateMiniGame_def Let_def split: option.splits miniGameType.splits)

lemma updateMiniGame_quality: "quality (mg (updateMiniGame w)) = quality (mg w)"
  by (simp add: updateMiniGame_def Let_def split: option.splits miniGameType.splits)

subsection \<open>The shop\<close>

lemma buyUpgrade_money_nonneg:
  "0 \<le> money (gs w) \<Longrightarrow> effectKeepsMoney u \<Longrightarrow> 0 \<le> money (gs (buyUpgrade u w))"
  by (auto simp: buyUpgrade_def effectKeepsMoney_def Let_def split: option.splits)

lemma buyAll_money_nonneg:
  "0 \<le> money (gs w) \<Longrightarrow> \<forall>u\<in>set us. effectKeepsMoney u \<Longrightarrow> 0 \<le> money (gs (buyAll us w))"
  unfolding buyAll_def
  by (induction us arbitrary: w) (simp_all add: buyUpgrade_money_nonneg)

subsection \<open>No order for a customer who is entering\<close>

lemma setState_NoData: "setState st d = NoData \<longleftrightarrow> d = NoData"
  by (auto simp: setState_def split: userData.splits)

lemma ordersSettled_initial: "ordersSettled (initMenuPrices R initialWorld)"
  by (simp add: ordersSettled_def initMenuPrices_def initialWorld_def)

lemma ordersSettled_startGame: "ordersSettled w \<Longrightarrow> ordersSettled (startGame R m w)"
  by (simp add: ordersSettled_def startGame_def)

lemma ordersSettled_quitToMenu: "ordersSettled w \<Longrightarrow> ordersSettled (quitToMenu w)"
  by (simp add: ordersSettled_def quitToMenu_def)

lemma ordersSettled_leaveFrame: "ordersSettled w \<Longrightarrow> ordersSettled (leaveFrame c w)"
  by (auto simp: ordersSettled_def leaveFrame_def Let_def)

lemma ordersSettled_enterFrame:
  assumes "ordersSettled w"
  shows "ordersSettled (enterFrame now c w)"
proof (cases "hasState Entering (userData (heap w c))")
  case False
  with assms show ?thesis by (simp add: enterFrame_def)
next
  case True
  then obtain t ord where ud: "userData (heap w c) = CustomerData t Entering ord"
    by (auto simp: hasState_def split: userData.splits)
  with assms have c: "c < nextRef w"
    by (fastforce simp: ordersSettled_def not_le[symmetric])
  from assms ud have other: "\<forall>o' \<in> set (activeOrders (gs w)). customer o' \<noteq> c"
    by (auto simp: ordersSettled_def hasState_def)
  show ?thesis
    using assms ud c other
    by (auto simp: ordersSettled_def enterFrame_def addOrder_def Let_def hasState_def setState_def)
qed

lemma ordersSettled_addToCup: "ordersSettled w \<Longrightarrow> ordersSettled (addToCup cup ct w)"
  by (auto simp: ordersSettled_def addToCup_def hasState_def split: userData.splits)

lemma ordersSettled_mg: "ordersSettled (w\<lparr>mg := m\<rparr>) = ordersSettled w"
  by (simp add: ordersSettled_def)

lemma ordersSettled_grabbed: "ordersSettled (w\<lparr>grabbedObject := g\<rparr>) = ordersSettled w"
  by (simp add: ordersSettled_def)

lemma ordersSettled_endMiniGame: "ordersSettled w \<Longrightarrow> ordersSettled (endMiniGame w)"
  by (auto simp: endMiniGame_def Let_def ordersSettled_mg ordersSettled_addToCup split: option.splits)

lemma ordersSettled_handleMiniGameInput: "ordersSettled w \<Longrightarrow> ordersSettled (handleMiniGameInput now w)"
  by (auto simp: handleMiniGameInput_def Let_def ordersSettled_mg ordersSettled_endMiniGame
      split: option.splits miniGameType.splits)

lemma ordersSettled_updateMiniGame: "ordersSettled w \<Longrightarrow> ordersSettled (updateMiniGame w)"
  by (auto simp: updateMiniGame_def Let_def ordersSettled_mg split: option.splits miniGameType.splits)

lemma ordersSettled_cancelMiniGame: "ordersSettled w \<Longrightarrow> ordersSettled (cancelMiniGame w)"
  by (simp add: cancelMiniGame_def ordersSettled_mg)

lemma ordersSettled_startMiniGame: "ordersSettled w \<Longrightarrow> ordersSettled (startMiniGame ty cb r now w)"
  by (simp add: startMiniGame_def Let_def ordersSettled_mg)

lemma ordersSettled_newObject: "ordersSettled w \<Longrightarrow> d \<noteq> NoData \<Longrightarrow> ordersSettled (newObject d x z w)"
  by (auto simp: ordersSettled_def newObject_def less_Suc_eq)

lemma ordersSettled_grabCup: "ordersSettled w \<Longrightarrow> ordersSettled (grabCup w)"
  by (simp add: grabCup_def ordersSettled_grabbed ordersSettled_newObject)

lemma ordersSettled_grabPastry: "ordersSettled w \<Longrightarrow> ordersSettled (grabPastry w)"
  by (simp add: grabPastry_def ordersSettled_grabbed ordersSettled_newObject)

lemma ordersSettled_animateCustomerLeave:
  "ordersSettled w \<Longrightarrow> c < nextRef w \<Longrightarrow> ordersSettled (animateCustomerLeave c w)"
  unfolding animateCustomerLeave_def
  by (rule ordersSettled_leaveFrame) (auto simp: ordersSettled_def hasState_setState)

lemma ordersSettled_completeOrder:
  assumes "ordersSettled w" and "completeOrder i q w = Some w1"
  shows "ordersSettled w1"
proof -
  from assms(2) have i: "i < length (activeOrders (gs w))"
    by (simp add: completeOrder_def Let_def split: if_splits)
  let ?g1 = "(gs w)\<lparr>money := money (gs w) + (orderPayment (menuPrices (gs w)) (items (activeOrders (gs w) ! i))
                 + real_of_int (orderTip (orderPayment (menuPrices (gs w)) (items (activeOrders (gs w) ! i))) q)),
               customersServed := customersServed (gs w) + 1,
               rating := max 1 (min 5 (rating (gs w) + ratingChange q)),
               activeOrders := splice1 i (activeOrders (gs w))\<rparr>"
  have w1: "w1 = animateCustomerLeave (customer (activeOrders (gs w) ! i)) (w\<lparr>gs := ?g1\<rparr>)"
    using assms(2) i by (simp add: completeOrder_def Let_def)
  have "ordersSettled (w\<lparr>gs := ?g1\<rparr>)"
    using assms(1) set_splice1[of i "activeOrders (gs w)"] by (auto simp: ordersSettled_def)
  moreover have "customer (activeOrders (gs w) ! i) < nextRef (w\<lparr>gs := ?g1\<rparr>)"
    using assms(1) i by (simp add: ordersSettled_def)
  ultimately show ?thesis
    unfolding w1 by (rule ordersSettled_animateCustomerLeave)
qed

lemma ordersSettled_serveToCustomer: "ordersSettled w \<Longrightarrow> ordersSettled (snd (serveToCustomer R c anc w))"
  by (auto simp: serveToCustomer_def Let_def ordersSettled_grabbed
      split: option.splits userData.splits dest: ordersSettled_completeOrder)

lemma ordersSettled_tryInteract: "ordersSettled w \<Longrightarrow> ordersSettled (tryInteract R target r now w)"
  by (auto simp: tryInteract_def Let_def dropItem_def trashItem_def ordersSettled_grabbed
      ordersSettled_handleMiniGameInput ordersSettled_startMiniGame ordersSettled_addToCup
      ordersSettled_grabCup ordersSettled_grabPastry ordersSettled_serveToCustomer
      split: option.splits rayTarget.splits userData.splits)

lemma ordersSettled_targetPos:
  "ordersSettled w \<Longrightarrow> ordersSettled (w\<lparr>heap := (heap w)(c := (heap w c)\<lparr>targetPos := tp\<rparr>)\<rparr>)"
  by (auto simp: ordersSettled_def)

lemma ordersSettled_animateCustomerEnter:
  "ordersSettled w \<Longrightarrow> animateCustomerEnter R now c w = Some w1 \<Longrightarrow> ordersSettled w1"
  by (auto simp: animateCustomerEnter_def Let_def ordersSettled_targetPos ordersSettled_enterFrame
      split: option.splits if_splits)

lemma ordersSettled_customers:
  "ordersSettled (w\<lparr>gs := (gs w)\<lparr>customers := cs\<rparr>\<rparr>) = ordersSettled w"
  by (simp add: ordersSettled_def)

lemma ordersSettled_spawnCustomer:
  assumes "ordersSettled w" and "spawnCustomer R rt rd rc rp now w = Some w1"
  shows "ordersSettled w1"
proof (cases "length (customers (gs w)) \<ge> MAX_CUSTOMERS R")
  case True
  with assms show ?thesis by (simp add: spawnCustomer_def)
next
  case False
  with assms(2) obtain ty ord where
    w1: "animateCustomerEnter R now (nextRef w)
           ((newObject (CustomerData ty Entering ord) 0 9 w)
              \<lparr>gs := (gs (newObject (CustomerData ty Entering ord) 0 9 w))
                 \<lparr>customers := customers (gs (newObject (CustomerData ty Entering ord) 0 9 w)) @ [nextRef w]\<rparr>\<rparr>)
         = Some w1"
    by (auto simp: spawnCustomer_def Let_def split: option.splits)
  have "ordersSettled (newObject (CustomerData ty Entering ord) 0 9 w)"
    using assms(1) by (simp add: ordersSettled_newObject)
  then show ?thesis
    using w1 ordersSettled_animateCustomerEnter ordersSettled_customers by blast
qed

lemma ordersSettled_exec: "ordersSettled w \<Longrightarrow> exec R e w = Some w1 \<Longrightarrow> ordersSettled w1"
  by (cases e)
    (auto simp: exec_def ordersSettled_startGame ordersSettled_quitToMenu ordersSettled_enterFrame
      ordersSettled_leaveFrame ordersSettled_tryInteract ordersSettled_updateMiniGame
      ordersSettled_cancelMiniGame dest: ordersSettled_spawnCustomer)

lemma ordersSettled_run: "ordersSettled w \<Longrightarrow> run R es w = Some w1 \<Longrightarrow> ordersSettled w1"
  by (induction es arbitrary: w) (auto split: option.splits dest: ordersSettled_exec)

text \<open>A customer who is entering is entering or waiting after a frame, with the same order.\<close>

lemma enterFrame_userData:
  "userData (heap w c) = CustomerData ty Entering ord \<Longrightarrow>
     userData (heap (enterFrame now c w) c) = CustomerData ty Entering ord
     \<or> userData (heap (enterFrame now c w) c) = CustomerData ty Waiting ord"
  by (simp add: enterFrame_def addOrder_def Let_def hasState_def setState_def)

lemma animateCustomerEnter_userData:
  assumes "animateCustomerEnter R now c w = Some w'"
    and "userData (heap w c) = CustomerData ty Entering ord"
  shows "userData (heap w' c) = CustomerData ty Entering ord
     \<or> userData (heap w' c) = CustomerData ty Waiting ord"
proof -
  from assms(1) obtain queueIndex where
    w': "w' = enterFrame now c
           (w\<lparr>heap := (heap w)(c := (heap w c)
                \<lparr>targetPos := QUEUE_POSITIONS R ! (queueIndex mod length (QUEUE_POSITIONS R))\<rparr>)\<rparr>)"
    by (auto simp: animateCustomerEnter_def Let_def split: option.splits if_splits)
  show ?thesis
    unfolding w' by (rule enterFrame_userData) (simp add: assms(2))
qed

lemma customerData_eqI:
  "hasState st d \<Longrightarrow> customerType d = ty \<Longrightarrow> corder d = ord \<Longrightarrow> d = CustomerData ty st ord"
  by (cases d) (auto simp: hasState_def)

subsection \<open>The quality of a cup is never written\<close>

lemma cupsPristine_initial: "cupsPristine (initMenuPrices R initialWorld)"
  by (simp add: cupsPristine_def initMenuPrices_def initialWorld_def)

lemma cupsPristine_gs: "cupsPristine (w\<lparr>gs := g\<rparr>) = cupsPristine w"
  by (simp add: cupsPristine_def)

lemma cupsPristine_mg: "cupsPristine (w\<lparr>mg := m\<rparr>) = cupsPristine w"
  by (simp add: cupsPristine_def)

lemma cupsPristine_grabbed: "cupsPristine (w\<lparr>grabbedObject := g\<rparr>) = cupsPristine w"
  by (simp add: cupsPristine_def)

lemma cupsPristine_leaveFrame: "cupsPristine w \<Longrightarrow> cupsPristine (leaveFrame c w)"
  by (simp add: cupsPristine_def leaveFrame_userData)

lemma cupsPristine_enterFrame: "cupsPristine w \<Longrightarrow> cupsPristine (enterFrame now c w)"
  by (auto simp: cupsPristine_def enterFrame_def addOrder_def Let_def setState_def hasState_def
      split: userData.splits if_splits)

lemma addToCup_CupData:
  "userData (heap (addToCup cup ct w) r) = CupData c q \<Longrightarrow> \<exists>c'. userData (heap w r) = CupData c' q"
  by (auto simp: addToCup_def split: userData.splits if_splits)

lemma cupsPristine_addToCup: "cupsPristine w \<Longrightarrow> cupsPristine (addToCup cup ct w)"
  unfolding cupsPristine_def by (blast dest: addToCup_CupData)

lemma cupsPristine_endMiniGame: "cupsPristine w \<Longrightarrow> cupsPristine (endMiniGame w)"
  by (auto simp: endMiniGame_def Let_def cupsPristine_mg cupsPristine_addToCup split: option.splits)

lemma cupsPristine_handleMiniGameInput:
  "cupsPristine w \<Longrightarrow> cupsPristine (handleMiniGameInput now w)"
  by (auto simp: handleMiniGameInput_def Let_def cupsPristine_mg cupsPristine_endMiniGame
      split: option.splits miniGameType.splits)

lemma cupsPristine_updateMiniGame: "cupsPristine w \<Longrightarrow> cupsPristine (updateMiniGame w)"
  by (auto simp: updateMiniGame_def Let_def cupsPristine_mg split: option.splits miniGameType.splits)

lemma cupsPristine_startMiniGame: "cupsPristine w \<Longrightarrow> cupsPristine (startMiniGame ty cb r now w)"
  by (simp add: startMiniGame_def Let_def cupsPristine_mg)

lemma cupsPristine_newObject:
  "cupsPristine w \<Longrightarrow> (\<forall>c q. d = CupData c q \<longrightarrow> q = 100) \<Longrightarrow> cupsPristine (newObject d x z w)"
  by (auto simp: cupsPristine_def newObject_def)

lemma cupsPristine_grabCup: "cupsPristine w \<Longrightarrow> cupsPristine (grabCup w)"
  by (simp add: grabCup_def cupsPristine_grabbed cupsPristine_newObject)

lemma cupsPristine_grabPastry: "cupsPristine w \<Longrightarrow> cupsPristine (grabPastry w)"
  by (simp add: grabPastry_def cupsPristine_grabbed cupsPristine_newObject)

lemma cupsPristine_completeOrder:
  assumes "cupsPristine w" and "completeOrder i q w = Some w1"
  shows "cupsPristine w1"
  using assms(1) completeOrder_Some(8)[OF assms(2)]
  by (auto simp: cupsPristine_def setState_def split: userData.splits if_splits)

lemma cupsPristine_serveToCustomer:
  "cupsPristine w \<Longrightarrow> cupsPristine (snd (serveToCustomer R c anc w))"
  by (auto simp: serveToCustomer_def Let_def cupsPristine_grabbed
      split: option.splits userData.splits dest: cupsPristine_completeOrder)

lemma cupsPristine_tryInteract: "cupsPristine w \<Longrightarrow> cupsPristine (tryInteract R target r now w)"
  by (auto simp: tryInteract_def Let_def dropItem_def trashItem_def cupsPristine_grabbed
      cupsPristine_handleMiniGameInput cupsPristine_startMiniGame cupsPristine_addToCup
      cupsPristine_grabCup cupsPristine_grabPastry cupsPristine_serveToCustomer
      split: option.splits rayTarget.splits userData.splits)

lemma cupsPristine_targetPos:
  "cupsPristine w \<Longrightarrow> cupsPristine (w\<lparr>heap := (heap w)(c := (heap w c)\<lparr>targetPos := tp\<rparr>)\<rparr>)"
  by (auto simp: cupsPristine_def)

lemma cupsPristine_animateCustomerEnter:
  "cupsPristine w \<Longrightarrow> animateCustomerEnter R now c w = Some w1 \<Longrightarrow> cupsPristine w1"
  by (auto simp: animateCustomerEnter_def Let_def cupsPristine_targetPos cupsPristine_enterFrame
      split: option.splits if_splits)

lemma cupsPristine_spawnCustomer:
  assumes "cupsPristine w" and "spawnCustomer R rt rd rc rp now w = Some w1"
  shows "cupsPristine w1"
proof (cases "length (customers (gs w)) \<ge> MAX_CUSTOMERS R")
  case True
  with assms show ?thesis by (simp add: spawnCustomer_def)
next
  case False
  with assms(2) obtain ty ord where
    w1: "animateCustomerEnter R now (nextRef w)
           ((newObject (CustomerData ty Entering ord) 0 9 w)
              \<lparr>gs := (gs (newObject (CustomerData ty Entering ord) 0 9 w))
                 \<lparr>customers := customers (gs (newObject (CustomerData ty Entering ord) 0 9 w))
                                 @ [nextRef w]\<rparr>\<rparr>)
         = Some w1"
    by (auto simp: spawnCustomer_def Let_def split: option.splits)
  have "cupsPristine (newObject (CustomerData ty Entering ord) 0 9 w)"
    using assms(1) by (simp add: cupsPristine_newObject)
  then show ?thesis
    using w1 cupsPristine_animateCustomerEnter cupsPristine_gs by blast
qed

lemma cupsPristine_exec: "cupsPristine w \<Longrightarrow> exec R e w = Some w1 \<Longrightarrow> cupsPristine w1"
  by (cases e)
    (auto simp: exec_def startGame_def quitToMenu_def cancelMiniGame_def cupsPristine_gs
      cupsPristine_mg cupsPristine_enterFrame cupsPristine_leaveFrame cupsPristine_tryInteract
      cupsPristine_updateMiniGame dest: cupsPristine_spawnCustomer)

lemma cupsPristine_run: "cupsPristine w \<Longrightarrow> run R es w = Some w1 \<Longrightarrow> cupsPristine w1"
  by (induction es arbitrary: w) (auto split: option.splits dest: cupsPristine_exec)

text \<open>
  Whatever was played, a cup of a session has quality 100, and 100 is what
  \<^verbatim>\<open>serveToCustomer\<close> hands to \<^verbatim>\<open>completeOrder\<close> for it.
\<close>

lemma cup_quality_in_every_run:
  assumes "run R es (initMenuPrices R initialWorld) = Some w"
    and "userData (heap w r) = CupData c q"
  shows "q = 100" and "heldQuality (userData (heap w r)) = 100"
proof -
  have "cupsPristine w"
    using assms(1) cupsPristine_initial cupsPristine_run by blast
  with assms(2) show "q = 100" by (auto simp: cupsPristine_def)
  with assms(2) show "heldQuality (userData (heap w r)) = 100" by (simp add: heldQuality_def)
qed

section \<open>The claims\<close>

subsection \<open>Matching a held item against an order\<close>

text \<open>
  Claim C1. In \<^verbatim>\<open>serveToCustomer\<close>, a held pastry matches exactly when the order has an
  item of type pastry; a held cup matches exactly when some drink of the order has a
  recipe all of whose required ingredients are flagged true in the contents of the cup.
  Flags of ingredients that no recipe of the order requires have no influence. Once
  something is held, the customer is not entering and the order is found, the call
  serves exactly when the item matches.
\<close>

theorem C1_match_rule:
  "(matchFound recipes (PastryData q) its \<longleftrightarrow> (\<exists>it \<in> set its. itype it = ''pastry''))
   \<and> (matchFound recipes (CupData c q) its \<longleftrightarrow>
        (\<exists>it \<in> set its. itype it = ''drink'' \<and>
           (\<exists>recipe. recipes (item_id it) = Some recipe \<and>
              (\<forall>(ingredient, required) \<in> set recipe. required \<longrightarrow> c ingredient = Some True))))
   \<and> ((\<forall>it \<in> set its. \<forall>recipe ingredient.
          itype it = ''drink'' \<and> recipes (item_id it) = Some recipe
          \<and> (ingredient, True) \<in> set recipe \<longrightarrow> c ingredient = c' ingredient)
        \<longrightarrow> matchFound recipes (CupData c q) its = matchFound recipes (CupData c' q') its)
   \<and> (grabbedObject w = Some held
        \<and> \<not> hasState Entering (userData (heap w (rootCustomer (heap w) cobj anc)))
        \<and> findOrderIndex w (rootCustomer (heap w) cobj anc) = Some i
        \<longrightarrow> (fst (serveToCustomer R cobj anc w) = Served \<longleftrightarrow>
               matchFound (DRINK_RECIPES R) (userData (heap w held))
                 (items (activeOrders (gs w) ! i))))"
proof (intro conjI impI)
  show "matchFound recipes (PastryData q) its \<longleftrightarrow> (\<exists>it \<in> set its. itype it = ''pastry'')"
    by (simp add: matchFound_def list_ex_iff)
next
  show "matchFound recipes (CupData c q) its \<longleftrightarrow>
        (\<exists>it \<in> set its. itype it = ''drink'' \<and>
           (\<exists>recipe. recipes (item_id it) = Some recipe \<and>
              (\<forall>(ingredient, required) \<in> set recipe. required \<longrightarrow> c ingredient = Some True)))"
    by (simp add: matchFound_def drinkMatches_iff recipeMatches_iff flagged_def)
next
  assume h: "\<forall>it \<in> set its. \<forall>recipe ingredient.
          itype it = ''drink'' \<and> recipes (item_id it) = Some recipe
          \<and> (ingredient, True) \<in> set recipe \<longrightarrow> c ingredient = c' ingredient"
  have "\<And>it recipe. it \<in> set its \<Longrightarrow> itype it = ''drink'' \<Longrightarrow> recipes (item_id it) = Some recipe
          \<Longrightarrow> recipeMatches c recipe = recipeMatches c' recipe"
    by (rule recipeMatches_cong) (use h in \<open>auto simp: flagged_def\<close>)
  then show "matchFound recipes (CupData c q) its = matchFound recipes (CupData c' q') its"
    unfolding matchFound_def drinkMatches_iff by auto
next
  assume h: "grabbedObject w = Some held
        \<and> \<not> hasState Entering (userData (heap w (rootCustomer (heap w) cobj anc)))
        \<and> findOrderIndex w (rootCustomer (heap w) cobj anc) = Some i"
  then have "i < length (activeOrders (gs w))" using findOrderIndex_lt by blast
  with h show "fst (serveToCustomer R cobj anc w) = Served \<longleftrightarrow>
               matchFound (DRINK_RECIPES R) (userData (heap w held))
                 (items (activeOrders (gs w) ! i))"
    by (simp add: serveToCustomer_def Let_def completeOrder_def)
qed

theorem C1_match_rule_witness:
  "matchFound (DRINK_RECIPES sampleRegistry) (PastryData 100) [latte, croissant]
   \<and> matchFound (DRINK_RECIPES sampleRegistry) (CupData plainCup 100) [latte, croissant]
   \<and> matchFound (DRINK_RECIPES sampleRegistry) (CupData richCup 100) [latte, croissant]
   \<and> fst (serveToCustomer sampleRegistry 0 [] afterBrew) = Served"
proof -
  let ?recipes = "DRINK_RECIPES sampleRegistry"
  let ?its = "[latte, croissant]"
  note rule = C1_match_rule [of ?recipes 100 ?its plainCup richCup 100 afterBrew 1 0 "[]" 0
      sampleRegistry]
  have pastry: "\<exists>it \<in> set ?its. itype it = ''pastry''"
    by (simp add: croissant_def)
  have drink: "\<exists>it \<in> set ?its. itype it = ''drink'' \<and>
           (\<exists>recipe. ?recipes (item_id it) = Some recipe \<and>
              (\<forall>(ingredient, required) \<in> set recipe. required \<longrightarrow> plainCup ingredient = Some True))"
    by (simp add: latte_def sampleRegistry_def plainCup_def emptyContents_def)
  have same: "\<forall>it \<in> set ?its. \<forall>recipe ingredient.
          itype it = ''drink'' \<and> ?recipes (item_id it) = Some recipe
          \<and> (ingredient, True) \<in> set recipe \<longrightarrow> plainCup ingredient = richCup ingredient"
    by (auto simp: latte_def croissant_def sampleRegistry_def richCup_def)
  have found: "grabbedObject afterBrew = Some 1
        \<and> \<not> hasState Entering (userData (heap afterBrew (rootCustomer (heap afterBrew) 0 [])))
        \<and> findOrderIndex afterBrew (rootCustomer (heap afterBrew) 0 []) = Some 0"
    by code_simp
  have held: "matchFound ?recipes (userData (heap afterBrew 1))
                 (items (activeOrders (gs afterBrew) ! 0))"
    by code_simp
  from rule pastry drink same found held show ?thesis by metis
qed

text \<open>
  Claim C9. Matching is monotonic in the contents of the cup: when a cup matches an
  order, the cup with one more flag set to true matches it as well.
\<close>

theorem C9_match_monotonic:
  "matchFound recipes (CupData c q) its \<Longrightarrow> matchFound recipes (CupData (c(k \<mapsto> True)) q) its"
  by (simp add: matchFound_def drinkMatches_mono)

theorem C9_match_monotonic_witness:
  "matchFound (DRINK_RECIPES sampleRegistry) (CupData plainCup 100) [latte]
   \<and> matchFound (DRINK_RECIPES sampleRegistry) (CupData (plainCup(''caramel'' \<mapsto> True)) 100) [latte]"
proof -
  have h: "matchFound (DRINK_RECIPES sampleRegistry) (CupData plainCup 100) [latte]"
    by code_simp
  from h C9_match_monotonic [OF h, of "''caramel''"] show ?thesis by simp
qed

subsection \<open>Serving\<close>

text \<open>
  Claim C2. Every call of \<^verbatim>\<open>serveToCustomer\<close> ends in one of two ways and never throws.
  Either it serves: exactly one order leaves \<^verbatim>\<open>activeOrders\<close>, the customer of that
  order is set to leaving while every other object stays as it was, and the hand is
  emptied. Or it rejects, because nothing is held, the customer is still entering, no
  order is found, or the item does not match: then the whole state, hence
  \<^verbatim>\<open>activeOrders\<close>, \<^verbatim>\<open>customers\<close>, the money, the rating, the number of customers served
  and the held item, is unchanged.
\<close>

theorem C2_serve_or_reject:
  assumes "serveToCustomer R cobj anc w = (out, w')"
  shows "out \<noteq> Threw
    \<and> (out \<noteq> Served \<longrightarrow>
         w' = w
         \<and> (out = NothingToServe \<longleftrightarrow> grabbedObject w = None)
         \<and> (out = StillWalking \<longleftrightarrow>
              grabbedObject w \<noteq> None
              \<and> hasState Entering (userData (heap w (rootCustomer (heap w) cobj anc))))
         \<and> (out = OrderPending \<or> out = NoOrder \<longleftrightarrow>
              grabbedObject w \<noteq> None
              \<and> \<not> hasState Entering (userData (heap w (rootCustomer (heap w) cobj anc)))
              \<and> findOrderIndex w (rootCustomer (heap w) cobj anc) = None)
         \<and> (out = WrongItem \<longleftrightarrow>
              (\<exists>held i. grabbedObject w = Some held
                 \<and> \<not> hasState Entering (userData (heap w (rootCustomer (heap w) cobj anc)))
                 \<and> findOrderIndex w (rootCustomer (heap w) cobj anc) = Some i
                 \<and> \<not> matchFound (DRINK_RECIPES R) (userData (heap w held))
                        (items (activeOrders (gs w) ! i)))))
    \<and> (out = Served \<longrightarrow>
         (\<exists>i < length (activeOrders (gs w)).
            activeOrders (gs w') = splice1 i (activeOrders (gs w))
          \<and> Suc (length (activeOrders (gs w'))) = length (activeOrders (gs w))
          \<and> (\<forall>ty st ord.
                userData (heap w (customer (activeOrders (gs w) ! i))) = CustomerData ty st ord
                \<longrightarrow> userData (heap w' (customer (activeOrders (gs w) ! i)))
                      = CustomerData ty Leaving ord)
          \<and> (\<forall>r. r \<noteq> customer (activeOrders (gs w) ! i) \<longrightarrow> heap w' r = heap w r)
          \<and> grabbedObject w \<noteq> None \<and> grabbedObject w' = None))"
proof -
  note oc = serveToCustomer_outcome [OF assms]
  from serveToCustomer_cases [OF assms]
  consider (rejected) "out \<noteq> Served" "out \<noteq> Threw" "w' = w"
    | (served) held i w1 where "out = Served" "grabbedObject w = Some held"
        "completeOrder i (heldQuality (userData (heap w held))) w = Some w1"
        "w' = w1\<lparr>grabbedObject := None\<rparr>"
    by blast
  then show ?thesis
  proof cases
    case rejected
    with oc show ?thesis by blast
  next
    case served
    note co = completeOrder_Some [OF served(3)]
    let ?c = "customer (activeOrders (gs w) ! i)"
    have "i < length (activeOrders (gs w))" by (rule co(1))
    moreover have "activeOrders (gs w') = splice1 i (activeOrders (gs w))"
      using co(2) served(4) by simp
    moreover have "Suc (length (activeOrders (gs w'))) = length (activeOrders (gs w))"
      using co(1,2) served(4) by (simp add: length_splice1)
    moreover have "\<forall>ty st ord. userData (heap w ?c) = CustomerData ty st ord
                \<longrightarrow> userData (heap w' ?c) = CustomerData ty Leaving ord"
      using co(8) [of ?c] served(4) by (simp add: setState_def)
    moreover have "\<forall>r. r \<noteq> ?c \<longrightarrow> heap w' r = heap w r"
      using co(7) served(4) by simp
    moreover have "grabbedObject w \<noteq> None" "grabbedObject w' = None"
      using served(2,4) by simp_all
    ultimately show ?thesis using served(1) by blast
  qed
qed

theorem C2_serve_or_reject_witness:
  "fst (serveToCustomer sampleRegistry 0 [] afterBrew) = Served
   \<and> grabbedObject (snd (serveToCustomer sampleRegistry 0 [] afterBrew)) = None
   \<and> length (activeOrders (gs afterBrew)) = 1
   \<and> activeOrders (gs (snd (serveToCustomer sampleRegistry 0 [] afterBrew))) = []
   \<and> fst (serveToCustomer sampleRegistry 0 [] afterArrival) = NothingToServe
   \<and> snd (serveToCustomer sampleRegistry 0 [] afterArrival) = afterArrival"
proof -
  have served: "fst (serveToCustomer sampleRegistry 0 [] afterBrew) = Served"
    by code_simp
  have one: "length (activeOrders (gs afterBrew)) = 1"
    by code_simp
  have rejected: "fst (serveToCustomer sampleRegistry 0 [] afterArrival) = NothingToServe"
    by code_simp
  from C2_serve_or_reject [OF surjective_pairing, of sampleRegistry 0 "[]" afterBrew] served one
  have "grabbedObject (snd (serveToCustomer sampleRegistry 0 [] afterBrew)) = None
      \<and> activeOrders (gs (snd (serveToCustomer sampleRegistry 0 [] afterBrew))) = []"
    by auto
  moreover
  from C2_serve_or_reject [OF surjective_pairing, of sampleRegistry 0 "[]" afterArrival] rejected
  have "snd (serveToCustomer sampleRegistry 0 [] afterArrival) = afterArrival"
    by simp
  ultimately show ?thesis using served one rejected by simp
qed

subsection \<open>Payment, tip and rating\<close>



subsection \<open>The quality of a served cup\<close>

text \<open>
  Claim C4. A cup is created with quality 100, every completed mini-game sets that
  quality to its result, and the quality handed to \<^verbatim>\<open>completeOrder\<close> on serving is the
  one scored. The script does the first and never the second. In the sample session the
  espresso game ends in a miss, quality 10: the cup has its espresso and still the
  quality 100, and serving it pays the tip of a perfect drink, 5 plus 1, with the rating
  staying at 5. At quality 10 the customer pays 5 and the rating drops to 4.9.
\<close>

theorem C4_mini_game_quality_not_stored:
  "grabbedObject afterBrew = Some 1
   \<and> \<not> active (mg afterBrew)
   \<and> quality (mg afterBrew) = 10
   \<and> contents (userData (heap afterBrew 1)) ''espresso'' = Some True
   \<and> cquality (userData (heap afterBrew 1)) = 100
   \<and> heldQuality (userData (heap afterBrew 1)) = 100
   \<and> money (gs afterBrew) = 100
   \<and> money (gs afterServe) = 106
   \<and> rating (gs afterServe) = 5
   \<and> customersServed (gs afterServe) = 1
   \<and> money (gs (the (completeOrder 0 10 afterBrew))) = 105
   \<and> rating (gs (the (completeOrder 0 10 afterBrew))) = 49 / 10"
  by code_simp

subsection \<open>When an order is generated and when it is registered\<close>

text \<open>
  Claim C5, as amended. The order of a customer is generated by \<^verbatim>\<open>generateOrder\<close> when
  the customer is spawned, and the customer carries it from then on, also while
  entering. It is registered in \<^verbatim>\<open>activeOrders\<close> by the frame that turns the customer
  from entering to waiting, with the items the customer carries, and by no earlier
  frame. Consequently no customer who is entering has an order in \<^verbatim>\<open>activeOrders\<close>, in
  any state a session reaches.
\<close>

theorem C5_order_generated_at_spawn:
  "(length (customers (gs w)) < MAX_CUSTOMERS R
      \<and> spawnCustomer R rt rd rc rp now w = Some w'
      \<longrightarrow> (\<exists>ty ord. generateOrder (MENU_ITEMS R) rd rc rp = Some ord
             \<and> (userData (heap w' (nextRef w)) = CustomerData ty Entering ord
                \<or> userData (heap w' (nextRef w)) = CustomerData ty Waiting ord)))
   \<and> (userData (heap w c) = CustomerData ty Entering ord
      \<longrightarrow> (let dx = fst (targetPos (heap w c)) - posx (heap w c);
               dz = snd (targetPos (heap w c)) - posz (heap w c)
           in if dx * dx + dz * dz > 1 / 100
              then userData (heap (enterFrame now c w) c) = CustomerData ty Entering ord
                   \<and> activeOrders (gs (enterFrame now c w)) = activeOrders (gs w)
              else userData (heap (enterFrame now c w) c) = CustomerData ty Waiting ord
                   \<and> activeOrders (gs (enterFrame now c w))
                       = activeOrders (gs w) @ [\<lparr>customer = c, items = ord, startTime = now\<rparr>]))
   \<and> (run R es (initMenuPrices R initialWorld) = Some w
      \<longrightarrow> (\<forall>ord \<in> set (activeOrders (gs w)).
             \<not> hasState Entering (userData (heap w (customer ord)))))"
proof (intro conjI impI)
  assume h: "length (customers (gs w)) < MAX_CUSTOMERS R
      \<and> spawnCustomer R rt rd rc rp now w = Some w'"
  then obtain ty ord w2 where
    g: "generateOrder (MENU_ITEMS R) rd rc rp = Some ord" and
    e: "animateCustomerEnter R now (nextRef w) w2 = Some w'" and
    u: "userData (heap w2 (nextRef w)) = CustomerData ty Entering ord"
    by (auto simp: spawnCustomer_def newObject_def Let_def split: option.splits)
  from animateCustomerEnter_userData [OF e u] g
  show "\<exists>ty ord. generateOrder (MENU_ITEMS R) rd rc rp = Some ord
             \<and> (userData (heap w' (nextRef w)) = CustomerData ty Entering ord
                \<or> userData (heap w' (nextRef w)) = CustomerData ty Waiting ord)"
    by blast
next
  assume "userData (heap w c) = CustomerData ty Entering ord"
  then show "let dx = fst (targetPos (heap w c)) - posx (heap w c);
               dz = snd (targetPos (heap w c)) - posz (heap w c)
           in if dx * dx + dz * dz > 1 / 100
              then userData (heap (enterFrame now c w) c) = CustomerData ty Entering ord
                   \<and> activeOrders (gs (enterFrame now c w)) = activeOrders (gs w)
              else userData (heap (enterFrame now c w) c) = CustomerData ty Waiting ord
                   \<and> activeOrders (gs (enterFrame now c w))
                       = activeOrders (gs w) @ [\<lparr>customer = c, items = ord, startTime = now\<rparr>]"
    by (simp add: enterFrame_def addOrder_def Let_def hasState_def setState_def)
next
  assume "run R es (initMenuPrices R initialWorld) = Some w"
  then have "ordersSettled w"
    using ordersSettled_initial ordersSettled_run by blast
  then show "\<forall>ord \<in> set (activeOrders (gs w)).
             \<not> hasState Entering (userData (heap w (customer ord)))"
    by (simp add: ordersSettled_def)
qed

theorem C5_order_generated_at_spawn_witness:
  "generateOrder (MENU_ITEMS sampleRegistry) 0 (1 / 2) 0 = Some [espresso]
   \<and> corder (userData (heap (the (spawnCustomer sampleRegistry 0 0 (1 / 2) 0 1000 started)) 0))
       = [espresso]
   \<and> userData (heap (enterFrame 1016 0 afterSpawn) 0) = CustomerData ''student'' Entering [espresso]
   \<and> activeOrders (gs (enterFrame 1016 0 afterSpawn)) = []
   \<and> activeOrders (gs afterArrival) \<noteq> []
   \<and> \<not> hasState Entering
         (userData (heap afterArrival (customer (hd (activeOrders (gs afterArrival))))))"
proof -
  let ?sp = "spawnCustomer sampleRegistry 0 0 (1 / 2) 0 1000 started"
  note rule1 = C5_order_generated_at_spawn [where w = started and R = sampleRegistry
      and rt = 0 and rd = 0 and rc = "1 / 2" and rp = 0 and now = 1000 and w' = "the ?sp", THEN conjunct1]
  note rule2 = C5_order_generated_at_spawn [where w = afterSpawn and c = 0
      and ty = "''student''" and ord = "[espresso]" and now = 1016, THEN conjunct2,
      THEN conjunct1]
  note rule3 = C5_order_generated_at_spawn [where w = afterArrival and R = sampleRegistry
      and es = arrived, THEN conjunct2, THEN conjunct2]
  have room: "length (customers (gs started)) < MAX_CUSTOMERS sampleRegistry"
    by code_simp
  have "\<not> Option.is_none ?sp" by code_simp
  then have sp: "?sp = Some (the ?sp)"
    by (simp add: Option.is_none_def)
  have fresh: "nextRef started = 0" by code_simp
  have gen: "generateOrder (MENU_ITEMS sampleRegistry) 0 (1 / 2) 0 = Some [espresso]"
    by code_simp
  have "hasState Entering (userData (heap afterSpawn 0))
      \<and> customerType (userData (heap afterSpawn 0)) = ''student''
      \<and> corder (userData (heap afterSpawn 0)) = [espresso]"
    by code_simp
  then have ent: "userData (heap afterSpawn 0) = CustomerData ''student'' Entering [espresso]"
    by (simp add: customerData_eqI)
  have far: "(fst (targetPos (heap afterSpawn 0)) - posx (heap afterSpawn 0))
               * (fst (targetPos (heap afterSpawn 0)) - posx (heap afterSpawn 0))
             + (snd (targetPos (heap afterSpawn 0)) - posz (heap afterSpawn 0))
               * (snd (targetPos (heap afterSpawn 0)) - posz (heap afterSpawn 0)) > 1 / 100"
    by code_simp
  have none: "activeOrders (gs afterSpawn) = []" by code_simp
  have "\<not> Option.is_none (run sampleRegistry arrived world0)" by code_simp
  then have r: "run sampleRegistry arrived (initMenuPrices sampleRegistry initialWorld)
                 = Some afterArrival"
    by (simp add: Option.is_none_def afterArrival_def world0_def)
  have ne: "activeOrders (gs afterArrival) \<noteq> []" by code_simp
  from rule1 room sp fresh gen
  have 1: "corder (userData (heap (the ?sp) 0)) = [espresso]" by auto
  from rule2 ent far none
  have 2: "userData (heap (enterFrame 1016 0 afterSpawn) 0)
             = CustomerData ''student'' Entering [espresso]
           \<and> activeOrders (gs (enterFrame 1016 0 afterSpawn)) = []"
    by (simp add: Let_def)
  from rule3 r ne
  have 3: "\<not> hasState Entering
         (userData (heap afterArrival (customer (hd (activeOrders (gs afterArrival))))))"
    by simp
  from gen 1 2 3 ne show ?thesis by simp
qed

text \<open>
  The claim as it was stated has the order generated at the transition to waiting, so
  that a customer who is entering has no order content yet. Right after the spawn of the
  sample session the customer is entering, no order is registered, and the customer
  already carries the espresso that the generator drew.
\<close>

theorem C5_counterexample:
  "hasState Entering (userData (heap afterSpawn 0))
   \<and> activeOrders (gs afterSpawn) = []
   \<and> corder (userData (heap afterSpawn 0)) = [espresso]
   \<and> generateOrder (MENU_ITEMS sampleRegistry) 0 (1 / 2) 0 = Some [espresso]
   \<and> corder (userData (heap afterSpawn 0)) \<noteq> []"
  by code_simp

subsection \<open>The timing game\<close>

text \<open>
  Claim C6. The timing game places its target at \<open>30 + 20 r\<close> for the draw \<open>r\<close> of
  \<^verbatim>\<open>Math.random()\<close>, so that the start lies in the interval from 30 (included) to 50
  (excluded), every point of which comes from exactly one draw, and the target is 20
  wide. One input ends the game and scores the marker position \<open>p\<close>: 100 within
  \<open>[start + 5, end - 5]\<close>, else 70 within \<open>[start, end]\<close>, else 40 within
  \<open>[start - 10, end + 10]\<close>, else 10. With the target from 35 to 65 the positions 47,
  38, 28 and 5 score 100, 70, 40 and 10, and so they do with the target from 35 to 55
  that a game can have.
\<close>

theorem C6_timing_game:
  "(0 \<le> r \<and> r < 1 \<longrightarrow>
      targetStart (mg (startMiniGame Timing cb r now w)) = 30 + r * 20
    \<and> 30 \<le> targetStart (mg (startMiniGame Timing cb r now w))
    \<and> targetStart (mg (startMiniGame Timing cb r now w)) < 50
    \<and> targetEnd (mg (startMiniGame Timing cb r now w))
         = targetStart (mg (startMiniGame Timing cb r now w)) + 20)
   \<and> (30 \<le> t \<and> t < 50 \<longrightarrow>
        (\<exists>!r. 0 \<le> r \<and> r < 1 \<and> targetStart (mg (startMiniGame Timing cb r now w)) = t))
   \<and> (active (mg w) \<and> mtype (mg w) = Some Timing \<longrightarrow>
        \<not> active (mg (handleMiniGameInput now w))
      \<and> quality (mg (handleMiniGameInput now w)) =
          (let p = markerPos (mg w); s = targetStart (mg w); e = targetEnd (mg w)
           in if s + 5 \<le> p \<and> p \<le> e - 5 then 100
              else if s \<le> p \<and> p \<le> e then 70
              else if s - 10 \<le> p \<and> p \<le> e + 10 then 40
              else 10))
   \<and> (active (mg w) \<and> mtype (mg w) = Some Timing
        \<and> targetStart (mg w) = 35 \<and> (targetEnd (mg w) = 65 \<or> targetEnd (mg w) = 55) \<longrightarrow>
        (markerPos (mg w) = 47 \<longrightarrow> quality (mg (handleMiniGameInput now w)) = 100)
      \<and> (markerPos (mg w) = 38 \<longrightarrow> quality (mg (handleMiniGameInput now w)) = 70)
      \<and> (markerPos (mg w) = 28 \<longrightarrow> quality (mg (handleMiniGameInput now w)) = 40)
      \<and> (markerPos (mg w) = 5 \<longrightarrow> quality (mg (handleMiniGameInput now w)) = 10))"
proof (intro conjI impI)
  assume "30 \<le> t \<and> t < 50"
  then show "\<exists>!r. 0 \<le> r \<and> r < 1 \<and> targetStart (mg (startMiniGame Timing cb r now w)) = t"
    by (intro ex1I [where a = "(t - 30) / 20"])
      (auto simp: startMiniGame_def Let_def field_simps)
qed (auto simp: startMiniGame_def handleMiniGameInput_def Let_def endMiniGame_mg
    timingQuality_def)

theorem C6_timing_game_witness:
  "targetStart (mg (startMiniGame Timing (1, ''espresso'') (1 / 4) 3000 world0)) = 35
   \<and> targetEnd (mg (startMiniGame Timing (1, ''espresso'') (1 / 4) 3000 world0)) = 55
   \<and> quality (mg (handleMiniGameInput 0 (timingAt 47))) = 100
   \<and> quality (mg (handleMiniGameInput 0 (timingAt 38))) = 70
   \<and> quality (mg (handleMiniGameInput 0 (timingAt 28))) = 40
   \<and> quality (mg (handleMiniGameInput 0 (timingAt 5))) = 10
   \<and> \<not> active (mg (handleMiniGameInput 0 (timingAt 47)))"
proof -
  have r: "(0::real) \<le> 1 / 4 \<and> (1::real) / 4 < 1" by simp
  have g: "active (mg (timingAt p)) \<and> mtype (mg (timingAt p)) = Some Timing
        \<and> targetStart (mg (timingAt p)) = 35 \<and> targetEnd (mg (timingAt p)) = 65
        \<and> markerPos (mg (timingAt p)) = p" for p
    by (simp add: timingAt_def initialWorld_def)
  from r C6_timing_game [where r = "1 / 4" and cb = "(1, ''espresso'')" and now = 3000
      and w = world0, THEN conjunct1]
  have 1: "targetStart (mg (startMiniGame Timing (1, ''espresso'') (1 / 4) 3000 world0)) = 35
   \<and> targetEnd (mg (startMiniGame Timing (1, ''espresso'') (1 / 4) 3000 world0)) = 55"
    by simp
  note ex = C6_timing_game [where now = 0, THEN conjunct2, THEN conjunct2, THEN conjunct2]
  note sc = C6_timing_game [where now = 0, THEN conjunct2, THEN conjunct2, THEN conjunct1]
  from g [of 47] ex [of "timingAt 47"] sc [of "timingAt 47"]
  have 2: "quality (mg (handleMiniGameInput 0 (timingAt 47))) = 100
     \<and> \<not> active (mg (handleMiniGameInput 0 (timingAt 47)))" by simp
  from g [of 38] ex [of "timingAt 38"]
  have 3: "quality (mg (handleMiniGameInput 0 (timingAt 38))) = 70" by simp
  from g [of 28] ex [of "timingAt 28"]
  have 4: "quality (mg (handleMiniGameInput 0 (timingAt 28))) = 40" by simp
  from g [of 5] ex [of "timingAt 5"]
  have 5: "quality (mg (handleMiniGameInput 0 (timingAt 5))) = 10" by simp
  from 1 2 3 4 5 show ?thesis by simp
qed

subsection \<open>The tap game\<close>

text \<open>
  Claim C7, as amended. In an active tap game with the threshold 12, an input adds
  exactly 1 to the tap counter, and the game completes on an input exactly when the
  counter then is at least 12, with quality 100 if less than 2000 ms have passed since
  the start, 70 if less than 3500 ms, and 40 otherwise. A frame update takes 0.03 off the
  counter while the counter is positive and leaves it alone otherwise; it never
  completes the game and never scores. The counter itself is not floored at 0: it can
  end below 0, though never at -0.03 or below.
\<close>

theorem C7_tap_game:
  assumes "active (mg w)" and "mtype (mg w) = Some Tap" and "tapRequired (mg w) = 12"
    and "mgStartTime (mg w) = Some start"
  shows "tapProgress (mg (handleMiniGameInput now w)) = tapProgress (mg w) + 1
    \<and> (active (mg (handleMiniGameInput now w)) \<longleftrightarrow> tapProgress (mg w) + 1 < 12)
    \<and> (tapProgress (mg w) + 1 \<ge> 12 \<longrightarrow>
         quality (mg (handleMiniGameInput now w)) =
           (if now - start < 2000 then 100 else if now - start < 3500 then 70 else 40))
    \<and> (tapProgress (mg w) + 1 < 12 \<longrightarrow>
         quality (mg (handleMiniGameInput now w)) = quality (mg w))
    \<and> tapProgress (mg (updateMiniGame w)) =
         (if tapProgress (mg w) > 0 then tapProgress (mg w) - 3 / 100 else tapProgress (mg w))
    \<and> active (mg (updateMiniGame w))
    \<and> quality (mg (updateMiniGame w)) = quality (mg w)
    \<and> (tapProgress (mg w) > - (3 / 100) \<longrightarrow>
         tapProgress (mg (updateMiniGame w)) > - (3 / 100)
         \<and> tapProgress (mg (handleMiniGameInput now w)) > - (3 / 100))"
proof -
  have "active (mg (updateMiniGame w))" and "quality (mg (updateMiniGame w)) = quality (mg w)"
    using assms(1) by (simp_all add: updateMiniGame_active updateMiniGame_quality)
  moreover have "tapProgress (mg (updateMiniGame w)) =
         (if tapProgress (mg w) > 0 then tapProgress (mg w) - 3 / 100 else tapProgress (mg w))"
    using assms by (simp add: updateMiniGame_def Let_def)
  moreover have "tapProgress (mg (handleMiniGameInput now w)) = tapProgress (mg w) + 1"
    and "active (mg (handleMiniGameInput now w)) \<longleftrightarrow> tapProgress (mg w) + 1 < 12"
    and "tapProgress (mg w) + 1 \<ge> 12 \<longrightarrow>
         quality (mg (handleMiniGameInput now w)) =
           (if now - start < 2000 then 100 else if now - start < 3500 then 70 else 40)"
    and "tapProgress (mg w) + 1 < 12 \<longrightarrow>
         quality (mg (handleMiniGameInput now w)) = quality (mg w)"
    using assms
    by (auto simp: handleMiniGameInput_def Let_def endMiniGame_mg tapQuality_def)
  ultimately show ?thesis by auto
qed

theorem C7_tap_game_witness:
  "tapProgress (mg (handleMiniGameInput 3100 tapStarted)) = 1
   \<and> active (mg (handleMiniGameInput 3100 tapStarted))
   \<and> tapProgress (mg (handleMiniGameInput 4500 elevenTaps)) = 12
   \<and> \<not> active (mg (handleMiniGameInput 4500 elevenTaps))
   \<and> quality (mg (handleMiniGameInput 4500 elevenTaps)) = 100
   \<and> quality (mg (handleMiniGameInput 6000 elevenTaps)) = 70
   \<and> quality (mg (handleMiniGameInput 8000 elevenTaps)) = 40
   \<and> tapProgress (mg (updateMiniGame elevenTaps)) = 1097 / 100
   \<and> active (mg (updateMiniGame elevenTaps))"
proof -
  have s: "active (mg tapStarted) \<and> mtype (mg tapStarted) = Some Tap
      \<and> tapRequired (mg tapStarted) = 12 \<and> mgStartTime (mg tapStarted) = Some 3000
      \<and> tapProgress (mg tapStarted) = 0"
    by code_simp
  have e: "active (mg elevenTaps) \<and> mtype (mg elevenTaps) = Some Tap
      \<and> tapRequired (mg elevenTaps) = 12 \<and> mgStartTime (mg elevenTaps) = Some 3000
      \<and> tapProgress (mg elevenTaps) = 11"
    by code_simp
  from s C7_tap_game [of tapStarted 3000 3100]
  have 1: "tapProgress (mg (handleMiniGameInput 3100 tapStarted)) = 1
   \<and> active (mg (handleMiniGameInput 3100 tapStarted))" by simp
  from e C7_tap_game [of elevenTaps 3000 4500]
  have 2: "tapProgress (mg (handleMiniGameInput 4500 elevenTaps)) = 12
   \<and> \<not> active (mg (handleMiniGameInput 4500 elevenTaps))
   \<and> quality (mg (handleMiniGameInput 4500 elevenTaps)) = 100
   \<and> tapProgress (mg (updateMiniGame elevenTaps)) = 1097 / 100
   \<and> active (mg (updateMiniGame elevenTaps))" by simp
  from e C7_tap_game [of elevenTaps 3000 6000]
  have 3: "quality (mg (handleMiniGameInput 6000 elevenTaps)) = 70" by simp
  from e C7_tap_game [of elevenTaps 3000 8000]
  have 4: "quality (mg (handleMiniGameInput 8000 elevenTaps)) = 40" by simp
  from 1 2 3 4 show ?thesis by simp
qed

text \<open>
  The claim as it was stated floors the counter at 0. In the sample game the player taps
  once and then lets 34 frames pass: the game is still active and the counter is -0.02.
\<close>

theorem C7_counterexample:
  "active (mg afterIdleTaps)
   \<and> mtype (mg afterIdleTaps) = Some Tap
   \<and> tapProgress (mg afterIdleTaps) = - (1 / 50)
   \<and> tapProgress (mg afterIdleTaps) < 0"
  by code_simp

subsection \<open>The shop\<close>

text \<open>
  Claim C8. \<^verbatim>\<open>buyUpgrade\<close> rejects a purchase when the money is less than the price and
  then leaves the state, hence the money and \<^verbatim>\<open>ownedUpgrades\<close>, unchanged. Therefore,
  from a non-negative balance, no sequence of purchases makes the money negative at any
  point, for upgrades whose effects do not themselves make it negative.
\<close>

theorem C8_money_never_negative:
  "(money (gs w) < price u \<longrightarrow> buyUpgrade u w = w)
   \<and> (0 \<le> money (gs w) \<and> (\<forall>u\<in>set us. effectKeepsMoney u)
        \<longrightarrow> (\<forall>k\<le>length us. 0 \<le> money (gs (buyAll (take k us) w))))"
proof (intro conjI impI allI)
  assume "money (gs w) < price u"
  then show "buyUpgrade u w = w" by (simp add: buyUpgrade_def)
next
  fix k
  assume h: "0 \<le> money (gs w) \<and> (\<forall>u\<in>set us. effectKeepsMoney u)" and "k \<le> length us"
  have "\<forall>u\<in>set (take k us). effectKeepsMoney u"
    using h by (meson in_set_takeD)
  with h show "0 \<le> money (gs (buyAll (take k us) w))"
    by (simp add: buyAll_money_nonneg)
qed

theorem C8_money_never_negative_witness:
  "money (gs (buyAll [grinder, frother] world0)) = 10
   \<and> 0 \<le> money (gs (buyAll (take 1 [grinder, frother]) world0))
   \<and> 0 \<le> money (gs (buyAll (take 2 [grinder, frother]) world0))
   \<and> buyUpgrade grinder (buyAll [grinder, frother] world0) = buyAll [grinder, frother] world0"
proof -
  let ?w = "buyAll [grinder, frother] world0"
  have m: "money (gs ?w) = 10" by code_simp
  have low: "money (gs ?w) < price grinder" by code_simp
  have start: "0 \<le> money (gs world0)" by code_simp
  have eff: "\<forall>u\<in>set [grinder, frother]. effectKeepsMoney u"
    by (simp add: effectKeepsMoney_def grinder_def frother_def)
  from low C8_money_never_negative [where w = ?w and u = grinder, THEN conjunct1]
  have 1: "buyUpgrade grinder ?w = ?w" by simp
  from start eff C8_money_never_negative [where w = world0 and us = "[grinder, frother]",
      THEN conjunct2]
  have 2: "\<forall>k\<le>length [grinder, frother]. 0 \<le> money (gs (buyAll (take k [grinder, frother]) world0))"
    by simp
  from 2 have "0 \<le> money (gs (buyAll (take 1 [grinder, frother]) world0))"
    and "0 \<le> money (gs (buyAll (take 2 [grinder, frother]) world0))"
    by (metis One_nat_def Suc_1 le_SucI le_refl length_Cons list.size(3))+
  with m 1 show ?thesis by simp
qed

text \<open>
  Claim C10. \<^verbatim>\<open>buyUpgrade\<close> does not look at \<^verbatim>\<open>ownedUpgrades\<close>: called for an upgrade that
  is already owned, with enough money, it takes the price again and appends the id a
  second time, and then runs the effect, if any. \<^verbatim>\<open>ownedUpgrades\<close> is a list with
  duplicates.
\<close>

theorem C10_no_ownership_check:
  assumes "ownedUpgrades (gs w) = Some owned" and "upgrade_id u \<in> set owned"
    and "price u \<le> money (gs w)"
  shows "(let w1 = w\<lparr>gs := (gs w)\<lparr>money := money (gs w) - price u,
                                  ownedUpgrades := Some (owned @ [upgrade_id u])\<rparr>\<rparr>
          in buyUpgrade u w = (case effect u of None \<Rightarrow> w1 | Some e \<Rightarrow> e w1))
    \<and> \<not> distinct (owned @ [upgrade_id u])
    \<and> count_list (owned @ [upgrade_id u]) (upgrade_id u) = count_list owned (upgrade_id u) + 1
    \<and> count_list owned (upgrade_id u) \<ge> 1
    \<and> (effect u = None \<longrightarrow>
         money (gs (buyUpgrade u w)) = money (gs w) - price u
         \<and> ownedUpgrades (gs (buyUpgrade u w)) = Some (owned @ [upgrade_id u]))"
proof -
  have "count_list owned (upgrade_id u) \<ge> 1"
    using assms(2) by (metis One_nat_def Suc_leI count_list_0_iff neq0_conv)
  then show ?thesis
    using assms by (auto simp: buyUpgrade_def Let_def split: option.splits)
qed

theorem C10_no_ownership_check_witness:
  "ownedUpgrades (gs (buyUpgrade grinder (world0\<lparr>gs := (gs world0)\<lparr>money := 150\<rparr>\<rparr>)))
     = Some [''grinder'']
   \<and> money (gs (buyUpgrade grinder (buyUpgrade grinder (world0\<lparr>gs := (gs world0)\<lparr>money := 150\<rparr>\<rparr>))))
       = 30
   \<and> ownedUpgrades
       (gs (buyUpgrade grinder (buyUpgrade grinder (world0\<lparr>gs := (gs world0)\<lparr>money := 150\<rparr>\<rparr>))))
       = Some [''grinder'', ''grinder'']"
proof -
  let ?w = "buyUpgrade grinder (world0\<lparr>gs := (gs world0)\<lparr>money := 150\<rparr>\<rparr>)"
  have o: "ownedUpgrades (gs ?w) = Some [''grinder'']" by code_simp
  have i: "upgrade_id grinder \<in> set [''grinder'']" by (simp add: grinder_def)
  have p: "price grinder \<le> money (gs ?w)" by code_simp
  have m: "money (gs ?w) = 90" by code_simp
  have e: "effect grinder = None \<and> price grinder = 60 \<and> upgrade_id grinder = ''grinder''"
    by (simp add: grinder_def)
  from C10_no_ownership_check [OF o i p] m e
  have "money (gs (buyUpgrade grinder ?w)) = 30
      \<and> ownedUpgrades (gs (buyUpgrade grinder ?w)) = Some [''grinder'', ''grinder'']"
    by simp
  with o show ?thesis by simp
qed

end
